theory Spec2Isabelle
  imports Main
begin

section \<open>Upstream payloads (utils/twitchApi.ts, interfaces/streamer.ts)\<close>

text \<open>
  The TypeScript interfaces become records. Several interfaces share field names
  (\<open>id\<close>, \<open>title\<close>, \<open>game_name\<close>, ...), so each upstream record prefixes its fields:
  \<open>ud_\<close> for UserData, \<open>sd_\<close> for StreamData, \<open>cd_\<close> for ChannelData, \<open>se_\<close> for
  SearchData, \<open>fs_\<close> for FollowedStreamsData. The fields of \<open>Streamer\<close> keep their names.
  JavaScript numbers that hold counts and seconds are integers here.
\<close>

record UserData =
  ud_id :: string
  ud_login :: string
  ud_display_name :: string
  ud_type :: string
  ud_broadcaster_type :: string
  ud_description :: string
  ud_profile_image_url :: string
  ud_offline_image_url :: string
  ud_view_count :: int
  ud_created_at :: string

record StreamData =
  sd_id :: string
  sd_user_id :: string
  sd_user_login :: string
  sd_user_name :: string
  sd_game_id :: string
  sd_game_name :: string
  sd_type :: string
  sd_title :: string
  sd_tags :: "string list"
  sd_viewer_count :: int
  sd_started_at :: string
  sd_language :: string
  sd_thumbnail_url :: string
  sd_is_mature :: bool

record ChannelData =
  cd_broadcaster_id :: string
  cd_broadcaster_login :: string
  cd_broadcaster_name :: string
  cd_broadcaster_language :: string
  cd_game_id :: string
  cd_game_name :: string
  cd_title :: string
  cd_delay :: int
  cd_tags :: "string list"
  cd_content_classification_labels :: "string list"
  cd_is_branded_content :: bool

record SearchData =
  se_broadcaster_language :: string
  se_broadcaster_login :: string
  se_display_name :: string
  se_game_id :: string
  se_game_name :: string
  se_id :: string
  se_is_live :: bool
  se_tags :: "string list"
  se_thumbnail_url :: string
  se_title :: string
  se_started_at :: string

record FollowedStreamsData =
  fs_user_id :: string
  fs_user_login :: string
  fs_user_name :: string
  fs_game_name :: string
  fs_title :: string
  fs_type :: string
  fs_viewer_count :: int

text \<open>\<open>TwitchTokenResponse\<close> of utils/twitchApi.ts (the user-token refresh answer).\<close>

record TwitchTokenResponse =
  access_token :: string
  refresh_token :: string
  expires_in :: int

record Streamer =
  channelId :: string
  displayName :: string
  loginName :: string
  profileImageUrl :: string
  title :: string
  gameName :: string
  viewers :: int
  isLive :: bool

section \<open>Errors (interfaces/errors.ts, hono's HTTPException)\<close>

text \<open>
  Every \<open>throw\<close> is a value: \<open>HTTPException status message\<close>, the \<open>TypeError\<close> that
  JavaScript raises when a property of \<open>undefined\<close> is read, and the error Prisma raises
  when \<open>update\<close> finds no row.
\<close>

datatype error =
    HTTPException nat string
  | TypeError
  | RecordNotFound

definition NotFoundError :: "string \<Rightarrow> error" where
  "NotFoundError message = HTTPException 404 message"

definition AuthenticationError :: error where
  "AuthenticationError = HTTPException 401 ''Unauthorized''"

text \<open>\<open>app.onError\<close> of index.ts: the status the client sees for a thrown error.\<close>

fun onError :: "error \<Rightarrow> nat" where
  "onError (HTTPException st message) = st"
| "onError TypeError = 500"
| "onError RecordNotFound = 500"

section \<open>The world outside: HTTP responses, the account table, the clock\<close>

text \<open>
  A \<open>fetch\<close> answer: its status, its status text and its JSON body, already read at the
  type the code casts it to. \<open>response.ok\<close> is the Fetch standard's: status 200 to 299.
\<close>

record 'a response =
  status :: nat
  statusText :: string
  json :: 'a

definition ok :: "'a response \<Rightarrow> bool" where
  "ok r = (200 \<le> status r \<and> status r \<le> 299)"

text \<open>The requests the code sends, by what determines them: the path arguments and the bearer token.\<close>

datatype request =
    GetUsers string string
  | GetStreams string string
  | GetChannels string string
  | GetSearchChannels string string
  | GetStreamsFollowed string string
  | PostRefreshToken string

text \<open>
  What the code does to the outside, in the order it does it: a request sent, a
  \<open>findFirst\<close> on the account table, an \<open>update\<close> of a row (id, access token, refresh
  token, expiry in milliseconds).
\<close>

datatype event =
    Fetch request
  | FindFirst string string
  | Update string string string int

text \<open>
  Modelled from the spec: the Prisma schema (prismaClient) is not among the sources. The
  account store is "a keyed store: read by account identifier, updated with new
  credential pairs and expiry timestamps"; a row has the columns the code reads and
  writes (prefix \<open>acct_\<close>), the nullable ones as options.
\<close>

record account =
  acct_id :: string
  acct_accountId :: string
  acct_providerId :: string
  acct_accessToken :: "string option"
  acct_refreshToken :: "string option"
  acct_accessTokenExpiresAt :: "int option"

text \<open>
  The environment answers every request. An answer may depend on everything done so far
  (the trace), so an upstream that changes its mind between two identical requests is
  covered. \<open>date_now\<close> is \<open>Date.now()\<close>; \<open>settles_first\<close> picks, among the rejected
  promises of one \<open>Promise.all\<close>, the one that rejects first.
\<close>

record env =
  users_api :: "event list \<Rightarrow> string \<Rightarrow> string \<Rightarrow> UserData list response"
  streams_api :: "event list \<Rightarrow> string \<Rightarrow> string \<Rightarrow> StreamData list response"
  channels_api :: "event list \<Rightarrow> string \<Rightarrow> string \<Rightarrow> ChannelData list response"
  search_api :: "event list \<Rightarrow> string \<Rightarrow> string \<Rightarrow> SearchData list response"
  followed_api :: "event list \<Rightarrow> string \<Rightarrow> string \<Rightarrow> FollowedStreamsData list response"
  token_api :: "event list \<Rightarrow> string \<Rightarrow> TwitchTokenResponse response"
  date_now :: "event list \<Rightarrow> int"
  settles_first :: "event list \<Rightarrow> nat"

record world =
  trace :: "event list"
  accounts :: "account list"

definition emit :: "event \<Rightarrow> world \<Rightarrow> world" where
  "emit e w = w\<lparr>trace := trace w @ [e]\<rparr>"

text \<open>\<open>data[0]\<close>: \<open>undefined\<close> on an empty array.\<close>

definition first :: "'a list \<Rightarrow> 'a option" where
  "first xs = (case xs of [] \<Rightarrow> None | x # _ \<Rightarrow> Some x)"

text \<open>Template literals print a status in decimal.\<close>

fun string_of_nat :: "nat \<Rightarrow> string" where
  "string_of_nat n =
     (if n < 10 then [''0123456789'' ! n]
      else string_of_nat (n div 10) @ [''0123456789'' ! (n mod 10)])"

declare string_of_nat.simps [simp del]

section \<open>Upstream client (utils/twitchApi.ts)\<close>

definition fetchUserData :: "env \<Rightarrow> string \<Rightarrow> string \<Rightarrow> world \<Rightarrow> (error + UserData option) \<times> world" where
  "fetchUserData env login accessToken w =
     (let response = users_api env (trace w) login accessToken;
          w' = emit (Fetch (GetUsers login accessToken)) w
      in if \<not> ok response
         then (Inl (HTTPException 500 (''Failed to fetch User Data for '' @ login)), w')
         else (Inr (first (json response)), w'))"

definition fetchStreamData :: "env \<Rightarrow> string \<Rightarrow> string \<Rightarrow> world \<Rightarrow> (error + StreamData option) \<times> world" where
  "fetchStreamData env userId accessToken w =
     (let response = streams_api env (trace w) userId accessToken;
          w' = emit (Fetch (GetStreams userId accessToken)) w
      in if \<not> ok response
         then (Inl (HTTPException 500 (''Failed to fetch Stream Data for '' @ userId)), w')
         else (Inr (first (json response)), w'))"

definition fetchChannelData :: "env \<Rightarrow> string \<Rightarrow> string \<Rightarrow> world \<Rightarrow> (error + ChannelData option) \<times> world" where
  "fetchChannelData env userId accessToken w =
     (let response = channels_api env (trace w) userId accessToken;
          w' = emit (Fetch (GetChannels userId accessToken)) w
      in if \<not> ok response
         then (Inl (HTTPException 500 (''Failed to fetch Channel Data for '' @ userId)), w')
         else (Inr (first (json response)), w'))"

definition refreshAccessToken :: "env \<Rightarrow> string \<Rightarrow> world \<Rightarrow> (error + TwitchTokenResponse) \<times> world" where
  "refreshAccessToken env refreshToken w =
     (let response = token_api env (trace w) refreshToken;
          w' = emit (Fetch (PostRefreshToken refreshToken)) w
      in if \<not> ok response
         then (if status response = 400
               then (Inl (HTTPException 400 ''INVALID_TOKEN''), w')
               else (Inl (HTTPException 500
                       (''Failed to refresh Access Token: '' @ string_of_nat (status response)
                          @ '' '' @ statusText response)), w'))
         else (Inr (json response), w'))"

section \<open>GET /channels/:name (index.ts)\<close>

text \<open>
  The handler after \<open>twitchTokenMiddleware\<close>: \<open>name\<close> is the route parameter and
  \<open>accessToken\<close> is \<open>c.get('twitch').access_token\<close>.
\<close>

definition getChannel :: "env \<Rightarrow> string \<Rightarrow> string \<Rightarrow> world \<Rightarrow> (error + Streamer) \<times> world" where
  "getChannel env name accessToken w =
     (case fetchUserData env name accessToken w of
        (Inl e, w1) \<Rightarrow> (Inl e, w1)
      | (Inr None, w1) \<Rightarrow> (Inl (NotFoundError ''Channel not found''), w1)
      | (Inr (Some userData), w1) \<Rightarrow>
          (case fetchStreamData env (ud_id userData) accessToken w1 of
             (Inl e, w2) \<Rightarrow> (Inl e, w2)
           | (Inr (Some streamData), w2) \<Rightarrow>
               (Inr \<lparr>channelId = ud_id userData,
                     displayName = ud_display_name userData,
                     loginName = ud_login userData,
                     profileImageUrl = ud_profile_image_url userData,
                     title = sd_title streamData,
                     gameName = sd_game_name streamData,
                     viewers = sd_viewer_count streamData,
                     isLive = (sd_type streamData = ''live'')\<rparr>, w2)
           | (Inr None, w2) \<Rightarrow>
               (case fetchChannelData env (ud_id userData) accessToken w2 of
                  (Inl e, w3) \<Rightarrow> (Inl e, w3)
                | (Inr None, w3) \<Rightarrow> (Inl (NotFoundError ''Channel not found''), w3)
                | (Inr (Some channelData), w3) \<Rightarrow>
                    (Inr \<lparr>channelId = ud_id userData,
                          displayName = ud_display_name userData,
                          loginName = ud_login userData,
                          profileImageUrl = ud_profile_image_url userData,
                          title = cd_title channelData,
                          gameName = cd_game_name channelData,
                          viewers = 0,
                          isLive = False\<rparr>, w3))))"

section \<open>Promise.all over a mapped array\<close>

text \<open>
  \<open>xs.map(async (x) => ...)\<close> starts the callbacks in array order, and each sends its
  request before the next starts; nothing but the request touches the world.
  \<open>fan_out\<close> collects how each promise settles, by position.
\<close>

fun fan_out :: "('a \<Rightarrow> world \<Rightarrow> (error + 'b) \<times> world) \<Rightarrow> 'a list \<Rightarrow> world \<Rightarrow> (error + 'b) list \<times> world" where
  "fan_out f [] w = ([], w)"
| "fan_out f (x # xs) w =
     (case f x w of (r, w1) \<Rightarrow> (case fan_out f xs w1 of (rs, w2) \<Rightarrow> (r # rs, w2)))"

fun rejected :: "(error + 'b) list \<Rightarrow> error list" where
  "rejected [] = []"
| "rejected (Inl e # rs) = e # rejected rs"
| "rejected (Inr v # rs) = rejected rs"

fun fulfilled :: "(error + 'b) list \<Rightarrow> 'b list" where
  "fulfilled [] = []"
| "fulfilled (Inl e # rs) = fulfilled rs"
| "fulfilled (Inr v # rs) = v # fulfilled rs"

text \<open>
  \<open>Promise.all\<close> fulfils with all the values, in position, when none rejects; otherwise
  it rejects with the reason of the promise that rejects first, which the environment
  picks among the rejected ones.
\<close>

definition Promise_all :: "env \<Rightarrow> (error + 'b) list \<times> world \<Rightarrow> (error + 'b list) \<times> world" where
  "Promise_all env p =
     (case p of (rs, w) \<Rightarrow>
        (case rejected rs of
           [] \<Rightarrow> (Inr (fulfilled rs), w)
         | e # es \<Rightarrow> (Inl ((e # es) ! (settles_first env (trace w) mod length (e # es))), w)))"

section \<open>Array.prototype.sort\<close>

text \<open>
  ECMAScript's sort is stable, so for a consistent comparator its result is determined:
  the stable insertion sort below computes it. \<open>compareFn a b \<le> 0\<close> keeps \<open>a\<close> before \<open>b\<close>.
\<close>

fun insert_by :: "('a \<Rightarrow> 'a \<Rightarrow> int) \<Rightarrow> 'a \<Rightarrow> 'a list \<Rightarrow> 'a list" where
  "insert_by compareFn x [] = [x]"
| "insert_by compareFn x (y # ys) =
     (if compareFn x y \<le> 0 then x # y # ys else y # insert_by compareFn x ys)"

definition sort_by :: "('a \<Rightarrow> 'a \<Rightarrow> int) \<Rightarrow> 'a list \<Rightarrow> 'a list" where
  "sort_by compareFn xs = foldr (insert_by compareFn) xs []"

section \<open>searchStreams (utils/twitchApi.ts)\<close>

text \<open>\<open>a || b\<close> on an optional number and on an optional string: 0, the empty string and \<open>undefined\<close> are falsy.\<close>

definition num_or :: "int option \<Rightarrow> int \<Rightarrow> int" where
  "num_or a b = (case a of None \<Rightarrow> b | Some n \<Rightarrow> if n = 0 then b else n)"

definition str_or :: "string option \<Rightarrow> string \<Rightarrow> string" where
  "str_or a b = (case a of None \<Rightarrow> b | Some s \<Rightarrow> if s = [] then b else s)"

text \<open>The callback of \<open>searchData.map\<close>.\<close>

definition searchItem :: "env \<Rightarrow> string \<Rightarrow> SearchData \<Rightarrow> world \<Rightarrow> (error + Streamer) \<times> world" where
  "searchItem env accessToken stream w =
     (case fetchStreamData env (se_id stream) accessToken w of
        (Inl e, w') \<Rightarrow> (Inl e, w')
      | (Inr streamData, w') \<Rightarrow>
          (Inr \<lparr>channelId = se_id stream,
                displayName = se_display_name stream,
                loginName = se_broadcaster_login stream,
                profileImageUrl = se_thumbnail_url stream,
                title = str_or (map_option sd_title streamData) [],
                gameName = se_game_name stream,
                viewers = num_or (map_option sd_viewer_count streamData) 0,
                isLive = se_is_live stream\<rparr>, w'))"

definition searchStreams :: "env \<Rightarrow> string \<Rightarrow> string \<Rightarrow> world \<Rightarrow> (error + Streamer list) \<times> world" where
  "searchStreams env searchQuery accessToken w =
     (let searchResponse = search_api env (trace w) searchQuery accessToken;
          w1 = emit (Fetch (GetSearchChannels searchQuery accessToken)) w
      in if \<not> ok searchResponse
         then (Inl (HTTPException 500 ''Failed to fetch Streams''), w1)
         else (case Promise_all env (fan_out (searchItem env accessToken) (json searchResponse) w1) of
                 (Inl e, w2) \<Rightarrow> (Inl e, w2)
               | (Inr streamers, w2) \<Rightarrow> (Inr (sort_by (\<lambda>a b. viewers b - viewers a) streamers), w2)))"

section \<open>The account table (prisma.account)\<close>

text \<open>
  \<open>findFirst\<close> returns the first row that matches, \<open>update\<close> rewrites the row with the
  given id (the primary key) and throws when there is none.
\<close>

definition account_findFirst :: "string \<Rightarrow> string \<Rightarrow> world \<Rightarrow> account option \<times> world" where
  "account_findFirst accountId providerId w =
     (find (\<lambda>a. acct_accountId a = accountId \<and> acct_providerId a = providerId) (accounts w),
      emit (FindFirst accountId providerId) w)"

definition account_update :: "string \<Rightarrow> string \<Rightarrow> string \<Rightarrow> int \<Rightarrow> world \<Rightarrow> (error + unit) \<times> world" where
  "account_update rowId accessToken refreshToken expiresAt w =
     (if list_ex (\<lambda>a. acct_id a = rowId) (accounts w)
      then (Inr (),
            emit (Update rowId accessToken refreshToken expiresAt)
              (w\<lparr>accounts :=
                   map (\<lambda>a. if acct_id a = rowId
                            then a\<lparr>acct_accessToken := Some accessToken,
                                   acct_refreshToken := Some refreshToken,
                                   acct_accessTokenExpiresAt := Some expiresAt\<rparr>
                            else a) (accounts w)\<rparr>))
      else (Inl RecordNotFound, emit (Update rowId accessToken refreshToken expiresAt) w))"

section \<open>fetchFollowedStreams (utils/twitchApi.ts)\<close>

text \<open>
  The callback of \<open>followedStreams.map\<close>: \<open>userData.profile_image_url\<close> on an absent
  user raises a TypeError.
\<close>

definition followedItem :: "env \<Rightarrow> string \<Rightarrow> FollowedStreamsData \<Rightarrow> world \<Rightarrow> (error + Streamer) \<times> world" where
  "followedItem env userAccessToken stream w =
     (case fetchUserData env (fs_user_login stream) userAccessToken w of
        (Inl e, w') \<Rightarrow> (Inl e, w')
      | (Inr None, w') \<Rightarrow> (Inl TypeError, w')
      | (Inr (Some userData), w') \<Rightarrow>
          (Inr \<lparr>channelId = fs_user_id stream,
                displayName = fs_user_name stream,
                loginName = fs_user_login stream,
                profileImageUrl = ud_profile_image_url userData,
                title = fs_title stream,
                gameName = fs_game_name stream,
                viewers = fs_viewer_count stream,
                isLive = True\<rparr>, w'))"

text \<open>
  The function calls itself after a refresh, and nothing in it bounds how often: it is a
  partial function, \<open>None\<close> when the recursion never ends. A refresh token that is null
  or empty is falsy. \<open>if (!twitchData)\<close> (line 273) tests an object, which is never
  falsy, so that branch has no counterpart.
\<close>

partial_function (option) fetchFollowedStreams ::
  "env \<Rightarrow> string \<Rightarrow> string \<Rightarrow> world \<Rightarrow> ((error + Streamer list) \<times> world) option" where
  "fetchFollowedStreams env accountId userAccessToken w =
     (let response = followed_api env (trace w) accountId userAccessToken;
          w1 = emit (Fetch (GetStreamsFollowed accountId userAccessToken)) w
      in if \<not> ok response
         then (if status response = 401
               then (case account_findFirst accountId ''twitch'' w1 of
                       (None, w2) \<Rightarrow>
                         Some (Inl (HTTPException 500 ''Invalid access token, no refresh token found''), w2)
                     | (Some account, w2) \<Rightarrow>
                         (case acct_refreshToken account of
                            None \<Rightarrow>
                              Some (Inl (HTTPException 500 ''Invalid access token, no refresh token found''), w2)
                          | Some refreshToken \<Rightarrow>
                              if refreshToken = []
                              then Some (Inl (HTTPException 500 ''Invalid access token, no refresh token found''), w2)
                              else (case refreshAccessToken env refreshToken w2 of
                                      (Inl e, w3) \<Rightarrow> Some (Inl e, w3)
                                    | (Inr twitchData, w3) \<Rightarrow>
                                        (case account_update (acct_id account)
                                                (access_token twitchData) (refresh_token twitchData)
                                                (date_now env (trace w3) + expires_in twitchData * 1000) w3 of
                                           (Inl e, w4) \<Rightarrow> Some (Inl e, w4)
                                         | (Inr u, w4) \<Rightarrow>
                                             fetchFollowedStreams env accountId (access_token twitchData) w4))))
               else Some (Inl (HTTPException 500
                            (''Failed to fetch Followed Channels for '' @ accountId @ '': ''
                               @ string_of_nat (status response) @ '' '' @ statusText response)), w1))
         else Some (Promise_all env (fan_out (followedItem env userAccessToken) (json response) w1)))"

section \<open>twitchTokenMiddleware (middlewares/twitchTokenMiddleware.ts)\<close>

text \<open>
  The middleware's own \<open>TwitchTokenResponse\<close> (fields prefixed \<open>app_\<close>), its two
  constants and its two module variables.
\<close>

record TwitchTokenResponse_app =
  app_access_token :: string
  app_expires_in :: int
  app_token_type :: string

definition MAX_CACHE_DURATION :: int where
  "MAX_CACHE_DURATION = 24 * 60 * 60 * 1000"

definition EXPIRY_BUFFER :: int where
  "EXPIRY_BUFFER = 60 * 1000"

record token_cache =
  cachedToken :: "TwitchTokenResponse_app option"
  tokenExpiryTime :: "int option"

text \<open>
  Lines 22 to 26: the cached token when the fast path is taken. \<open>null\<close> and 0 are falsy.
\<close>

definition cache_lookup :: "token_cache \<Rightarrow> int \<Rightarrow> TwitchTokenResponse_app option" where
  "cache_lookup c currentTime =
     (case cachedToken c of
        None \<Rightarrow> None
      | Some tok \<Rightarrow>
          (case tokenExpiryTime c of
             None \<Rightarrow> None
           | Some t \<Rightarrow> if t \<noteq> 0 \<and> currentTime < t - EXPIRY_BUFFER then Some tok else None))"

text \<open>
  Lines 44 to 61, what runs once the token request is answered: \<open>now\<close> is the
  \<open>Date.now()\<close> of line 54.
\<close>

definition store_token ::
  "TwitchTokenResponse_app response \<Rightarrow> int \<Rightarrow> token_cache \<Rightarrow> (error + TwitchTokenResponse_app) \<times> token_cache" where
  "store_token response now c =
     (if \<not> ok response
      then (Inl (HTTPException 500 (''Failed to fetch Twitch token: '' @ statusText response)), c)
      else (let data = json response;
                expiresInMs = min (app_expires_in data * 1000) MAX_CACHE_DURATION
            in (Inr \<lparr>app_access_token = app_access_token data,
                      app_expires_in = app_expires_in data,
                      app_token_type = app_token_type data\<rparr>,
                \<lparr>cachedToken = Some data,
                 tokenExpiryTime = Some (now + expiresInMs - EXPIRY_BUFFER)\<rparr>)))"

text \<open>
  One call, run to its end before anything else runs: \<open>currentTime\<close> is the
  \<open>Date.now()\<close> of line 20; \<open>response\<close> and \<open>now\<close> are what the token endpoint
  answers and when, read only when the request is sent. The result is the value set as
  \<open>twitch\<close> (or the error thrown), whether a request was sent, and the cache afterwards.
\<close>

definition twitchTokenMiddleware ::
  "token_cache \<Rightarrow> int \<Rightarrow> TwitchTokenResponse_app response \<Rightarrow> int
     \<Rightarrow> (error + TwitchTokenResponse_app) \<times> bool \<times> token_cache" where
  "twitchTokenMiddleware c currentTime response now =
     (case cache_lookup c currentTime of
        Some tok \<Rightarrow> (Inr tok, False, c)
      | None \<Rightarrow> (case store_token response now c of (r, c') \<Rightarrow> (r, True, c')))"

text \<open>
  Requests overlap: a call runs up to its \<open>await fetch\<close> (\<open>Enter\<close>, with the time read on
  line 20), other calls run, and it resumes when its answer is there (\<open>Resume\<close>, with
  the answer and the time read on line 54). The server keeps the cache, the number of
  token requests sent and not yet answered, and the number sent in all.
\<close>

datatype turn = Enter int | Resume "TwitchTokenResponse_app response" int

record server =
  cache :: token_cache
  in_flight :: nat
  issued :: nat

fun step :: "server \<Rightarrow> turn \<Rightarrow> server" where
  "step s (Enter currentTime) =
     (case cache_lookup (cache s) currentTime of
        Some tok \<Rightarrow> s
      | None \<Rightarrow> s\<lparr>in_flight := in_flight s + 1, issued := issued s + 1\<rparr>)"
| "step s (Resume response now) =
     (if in_flight s = 0 then s
      else s\<lparr>cache := snd (store_token response now (cache s)), in_flight := in_flight s - 1\<rparr>)"

definition run :: "turn list \<Rightarrow> server \<Rightarrow> server" where
  "run steps s = foldl step s steps"

section \<open>A sample upstream\<close>

text \<open>
  Concrete inputs on which the operations are run: sample payloads, an upstream that
  answers by id, and an account table with one linked Twitch account.
\<close>

definition reply :: "nat \<Rightarrow> 'a \<Rightarrow> 'a response" where
  "reply st body = \<lparr>status = st, statusText = [], json = body\<rparr>"

definition sample_user :: "string \<Rightarrow> UserData" where
  "sample_user login =
     \<lparr>ud_id = login, ud_login = login, ud_display_name = login, ud_type = [],
      ud_broadcaster_type = [], ud_description = [], ud_profile_image_url = ''img-'' @ login,
      ud_offline_image_url = [], ud_view_count = 0, ud_created_at = []\<rparr>"

definition sample_stream :: "string \<Rightarrow> int \<Rightarrow> StreamData" where
  "sample_stream userId n =
     \<lparr>sd_id = ''s-'' @ userId, sd_user_id = userId, sd_user_login = userId, sd_user_name = userId,
      sd_game_id = [], sd_game_name = ''chess'', sd_type = ''live'', sd_title = ''on air'',
      sd_tags = [], sd_viewer_count = n, sd_started_at = [], sd_language = [],
      sd_thumbnail_url = [], sd_is_mature = False\<rparr>"

definition sample_channel :: "string \<Rightarrow> ChannelData" where
  "sample_channel userId =
     \<lparr>cd_broadcaster_id = userId, cd_broadcaster_login = userId, cd_broadcaster_name = userId,
      cd_broadcaster_language = [], cd_game_id = [], cd_game_name = ''go'',
      cd_title = ''last time'', cd_delay = 0, cd_tags = [],
      cd_content_classification_labels = [], cd_is_branded_content = False\<rparr>"

definition sample_search :: "string \<Rightarrow> SearchData" where
  "sample_search userId =
     \<lparr>se_broadcaster_language = [], se_broadcaster_login = userId, se_display_name = userId,
      se_game_id = [], se_game_name = ''chess'', se_id = userId, se_is_live = True,
      se_tags = [], se_thumbnail_url = [], se_title = [], se_started_at = []\<rparr>"

definition sample_followed :: "string \<Rightarrow> FollowedStreamsData" where
  "sample_followed login =
     \<lparr>fs_user_id = login, fs_user_login = login, fs_user_name = login, fs_game_name = ''chess'',
      fs_title = ''on air'', fs_type = ''live'', fs_viewer_count = 7\<rparr>"

definition sample_token :: "string \<Rightarrow> string \<Rightarrow> TwitchTokenResponse" where
  "sample_token a r = \<lparr>access_token = a, refresh_token = r, expires_in = 3600\<rparr>"

text \<open>
  The sample upstream. Users: \<open>down\<close> fails, \<open>ghost\<close> does not exist, every other login
  does. Streams: \<open>down\<close> fails, \<open>alice\<close> has 120 viewers, \<open>five\<close> 5, \<open>fifty\<close> 50, every
  other channel is offline. Channel metadata exists except for \<open>bare\<close>. Followed
  streams are served to the access token \<open>access1\<close> only. The token endpoint trades
  \<open>refresh0\<close> for \<open>access1\<close>/\<open>refresh1\<close> and \<open>refresh1\<close> for \<open>access2\<close>/\<open>refresh2\<close>,
  rejects \<open>revoked\<close> with 400 and is otherwise unavailable.
\<close>

definition sample_env :: env where
  "sample_env =
     \<lparr>users_api = (\<lambda>tr login tok.
        if login = ''down'' then reply 500 []
        else if login = ''ghost'' then reply 200 []
        else reply 200 [sample_user login]),
      streams_api = (\<lambda>tr userId tok.
        if userId = ''down'' then reply 503 []
        else if userId = ''alice'' then reply 200 [sample_stream userId 120]
        else if userId = ''five'' then reply 200 [sample_stream userId 5]
        else if userId = ''fifty'' then reply 200 [sample_stream userId 50]
        else reply 200 []),
      channels_api = (\<lambda>tr userId tok.
        if userId = ''bare'' then reply 200 [] else reply 200 [sample_channel userId]),
      search_api = (\<lambda>tr query tok.
        if query = ''chess'' then reply 200 [sample_search ''five'', sample_search ''fifty'', sample_search ''zero'']
        else if query = ''go'' then reply 200 [sample_search ''five'', sample_search ''down'']
        else reply 200 []),
      followed_api = (\<lambda>tr accountId tok.
        if tok = ''access1''
        then (if accountId = ''acc'' then reply 200 [sample_followed ''alice'']
              else reply 200 [sample_followed ''alice'', sample_followed ''down''])
        else reply 401 []),
      token_api = (\<lambda>tr refreshToken.
        if refreshToken = ''refresh0'' then reply 200 (sample_token ''access1'' ''refresh1'')
        else if refreshToken = ''refresh1'' then reply 200 (sample_token ''access2'' ''refresh2'')
        else if refreshToken = ''revoked'' then reply 400 (sample_token [] [])
        else reply 503 (sample_token [] [])),
      date_now = (\<lambda>tr. 1000),
      settles_first = (\<lambda>tr. 0)\<rparr>"

text \<open>An upstream that turns \<open>access1\<close> down as well, and serves \<open>access2\<close>.\<close>

definition strict_env :: env where
  "strict_env =
     sample_env\<lparr>followed_api := (\<lambda>tr accountId tok.
        if tok = ''access2'' then reply 200 [] else reply 401 [])\<rparr>"

text \<open>
  An upstream that never accepts an access token, while its token endpoint keeps handing
  out new pairs.
\<close>

definition locked_env :: env where
  "locked_env =
     sample_env\<lparr>followed_api := (\<lambda>tr accountId tok. reply 401 []),
                token_api := (\<lambda>tr refreshToken. reply 200 (sample_token ''next'' ''again''))\<rparr>"

definition sample_account :: account where
  "sample_account =
     \<lparr>acct_id = ''row1'', acct_accountId = ''acc'', acct_providerId = ''twitch'',
      acct_accessToken = Some ''access0'', acct_refreshToken = Some ''refresh0'',
      acct_accessTokenExpiresAt = Some 0\<rparr>"

definition sample_world :: world where
  "sample_world = \<lparr>trace = [], accounts = [sample_account]\<rparr>"

text \<open>Counting the requests of one kind in a trace.\<close>

fun is_refresh :: "event \<Rightarrow> bool" where
  "is_refresh (Fetch (PostRefreshToken r)) = True"
| "is_refresh e = False"

fun is_followed :: "event \<Rightarrow> bool" where
  "is_followed (Fetch (GetStreamsFollowed a t)) = True"
| "is_followed e = False"

fun is_update :: "event \<Rightarrow> bool" where
  "is_update (Update i a r t) = True"
| "is_update e = False"

definition refreshes :: "world \<Rightarrow> nat" where
  "refreshes w = length (filter is_refresh (trace w))"

definition followed_fetches :: "world \<Rightarrow> nat" where
  "followed_fetches w = length (filter is_followed (trace w))"

definition empty_cache :: token_cache where
  "empty_cache = \<lparr>cachedToken = None, tokenExpiryTime = None\<rparr>"

definition idle_server :: server where
  "idle_server = \<lparr>cache = empty_cache, in_flight = 0, issued = 0\<rparr>"

definition sample_app_token :: TwitchTokenResponse_app where
  "sample_app_token = \<lparr>app_access_token = ''app1'', app_expires_in = 3600, app_token_type = ''bearer''\<rparr>"

section \<open>getChannel: the three outcomes\<close>

lemma fetchUserData_trace:
  "fetchUserData env login tok w = (r, w') \<Longrightarrow> w' = emit (Fetch (GetUsers login tok)) w"
  by (auto simp: fetchUserData_def Let_def split: if_splits)

lemma fetchStreamData_trace:
  "fetchStreamData env userId tok w = (r, w') \<Longrightarrow> w' = emit (Fetch (GetStreams userId tok)) w"
  by (auto simp: fetchStreamData_def Let_def split: if_splits)

lemma fetchChannelData_trace:
  "fetchChannelData env userId tok w = (r, w') \<Longrightarrow> w' = emit (Fetch (GetChannels userId tok)) w"
  by (auto simp: fetchChannelData_def Let_def split: if_splits)

lemma fetchUserData_channels_api [simp]:
  "fetchUserData (env\<lparr>channels_api := c\<rparr>) = fetchUserData env"
  by (simp add: fetchUserData_def fun_eq_iff)

lemma fetchStreamData_channels_api [simp]:
  "fetchStreamData (env\<lparr>channels_api := c\<rparr>) = fetchStreamData env"
  by (simp add: fetchStreamData_def fun_eq_iff)

text \<open>
  C5. When the user lookup returns a record and the stream lookup returns a record,
  \<open>getChannel\<close> answers the Streamer built from the two: the viewers are the stream's
  viewer count, \<open>isLive\<close> is whether the stream's type is \<open>live\<close>, title and game are
  the stream's. Only the two lookups are sent, and the answer is the same whatever the
  channel endpoint would have said.
\<close>

theorem getChannel_prefers_stream:
  assumes user: "fetchUserData env name tok w = (Inr (Some userData), w1)"
    and stream: "fetchStreamData env (ud_id userData) tok w1 = (Inr (Some streamData), w2)"
  shows "getChannel env name tok w =
           (Inr \<lparr>channelId = ud_id userData,
                 displayName = ud_display_name userData,
                 loginName = ud_login userData,
                 profileImageUrl = ud_profile_image_url userData,
                 title = sd_title streamData,
                 gameName = sd_game_name streamData,
                 viewers = sd_viewer_count streamData,
                 isLive = (sd_type streamData = ''live'')\<rparr>, w2)
         \<and> trace w2 = trace w @ [Fetch (GetUsers name tok), Fetch (GetStreams (ud_id userData) tok)]
         \<and> getChannel (env\<lparr>channels_api := other\<rparr>) name tok w = getChannel env name tok w"
proof -
  have t: "trace w2 = trace w @ [Fetch (GetUsers name tok), Fetch (GetStreams (ud_id userData) tok)]"
    using fetchUserData_trace [OF user] fetchStreamData_trace [OF stream]
    by (simp add: emit_def)
  have r: "getChannel env name tok w =
           (Inr \<lparr>channelId = ud_id userData,
                 displayName = ud_display_name userData,
                 loginName = ud_login userData,
                 profileImageUrl = ud_profile_image_url userData,
                 title = sd_title streamData,
                 gameName = sd_game_name streamData,
                 viewers = sd_viewer_count streamData,
                 isLive = (sd_type streamData = ''live'')\<rparr>, w2)"
    by (simp add: getChannel_def user stream)
  have i: "getChannel (env\<lparr>channels_api := other\<rparr>) name tok w = getChannel env name tok w"
    by (simp add: getChannel_def user stream)
  from r t i show ?thesis by blast
qed

lemma sample_alice_user:
  "fetchUserData sample_env ''alice'' ''t'' sample_world
     = (Inr (Some (sample_user ''alice'')), emit (Fetch (GetUsers ''alice'' ''t'')) sample_world)"
  by (simp add: fetchUserData_def sample_env_def reply_def ok_def first_def)

lemma sample_alice_stream:
  "fetchStreamData sample_env ''alice'' ''t'' w
     = (Inr (Some (sample_stream ''alice'' 120)), emit (Fetch (GetStreams ''alice'' ''t'')) w)"
  by (simp add: fetchStreamData_def sample_env_def reply_def ok_def first_def)

text \<open>On the sample upstream \<open>alice\<close> is live with 120 viewers, and has channel metadata too.\<close>

theorem getChannel_prefers_stream_witness:
  "fetchUserData sample_env ''alice'' ''t'' sample_world
     = (Inr (Some (sample_user ''alice'')), emit (Fetch (GetUsers ''alice'' ''t'')) sample_world)
   \<and> fetchStreamData sample_env (ud_id (sample_user ''alice'')) ''t'' (emit (Fetch (GetUsers ''alice'' ''t'')) sample_world)
     = (Inr (Some (sample_stream ''alice'' 120)),
        emit (Fetch (GetStreams ''alice'' ''t'')) (emit (Fetch (GetUsers ''alice'' ''t'')) sample_world))
   \<and> viewers (projr (fst (getChannel sample_env ''alice'' ''t'' sample_world))) = 120
   \<and> isLive (projr (fst (getChannel sample_env ''alice'' ''t'' sample_world)))
   \<and> title (projr (fst (getChannel sample_env ''alice'' ''t'' sample_world))) = ''on air''
   \<and> gameName (projr (fst (getChannel sample_env ''alice'' ''t'' sample_world))) = ''chess''"
proof -
  have u: "fetchUserData sample_env ''alice'' ''t'' sample_world
     = (Inr (Some (sample_user ''alice'')), emit (Fetch (GetUsers ''alice'' ''t'')) sample_world)"
    by (rule sample_alice_user)
  have s: "fetchStreamData sample_env (ud_id (sample_user ''alice'')) ''t'' (emit (Fetch (GetUsers ''alice'' ''t'')) sample_world)
     = (Inr (Some (sample_stream ''alice'' 120)),
        emit (Fetch (GetStreams ''alice'' ''t'')) (emit (Fetch (GetUsers ''alice'' ''t'')) sample_world))"
    by (simp add: sample_user_def sample_alice_stream)
  show ?thesis
    using u s getChannel_prefers_stream [OF u s]
    by (simp add: sample_stream_def)
qed

text \<open>
  C6. When the user lookup returns a record, the stream lookup returns none and the
  channel lookup returns a record, \<open>getChannel\<close> answers a Streamer with 0 viewers, not
  live, with the title and the game of the channel metadata.
\<close>

theorem getChannel_offline_channel:
  assumes user: "fetchUserData env name tok w = (Inr (Some userData), w1)"
    and stream: "fetchStreamData env (ud_id userData) tok w1 = (Inr None, w2)"
    and channel: "fetchChannelData env (ud_id userData) tok w2 = (Inr (Some channelData), w3)"
  shows "getChannel env name tok w =
           (Inr \<lparr>channelId = ud_id userData,
                 displayName = ud_display_name userData,
                 loginName = ud_login userData,
                 profileImageUrl = ud_profile_image_url userData,
                 title = cd_title channelData,
                 gameName = cd_game_name channelData,
                 viewers = 0,
                 isLive = False\<rparr>, w3)"
  by (simp add: getChannel_def user stream channel)

lemma sample_bob_user:
  "fetchUserData sample_env ''bob'' ''t'' sample_world
     = (Inr (Some (sample_user ''bob'')), emit (Fetch (GetUsers ''bob'' ''t'')) sample_world)"
  by (simp add: fetchUserData_def sample_env_def reply_def ok_def first_def)

lemma sample_bob_stream:
  "fetchStreamData sample_env ''bob'' ''t'' w = (Inr None, emit (Fetch (GetStreams ''bob'' ''t'')) w)"
  by (simp add: fetchStreamData_def sample_env_def reply_def ok_def first_def)

lemma sample_bob_channel:
  "fetchChannelData sample_env ''bob'' ''t'' w
     = (Inr (Some (sample_channel ''bob'')), emit (Fetch (GetChannels ''bob'' ''t'')) w)"
  by (simp add: fetchChannelData_def sample_env_def reply_def ok_def first_def)

text \<open>On the sample upstream \<open>bob\<close> is offline and has channel metadata.\<close>

theorem getChannel_offline_channel_witness:
  "fetchUserData sample_env ''bob'' ''t'' sample_world
     = (Inr (Some (sample_user ''bob'')), emit (Fetch (GetUsers ''bob'' ''t'')) sample_world)
   \<and> fetchStreamData sample_env (ud_id (sample_user ''bob'')) ''t''
        (emit (Fetch (GetUsers ''bob'' ''t'')) sample_world)
     = (Inr None, emit (Fetch (GetStreams ''bob'' ''t'')) (emit (Fetch (GetUsers ''bob'' ''t'')) sample_world))
   \<and> fetchChannelData sample_env (ud_id (sample_user ''bob'')) ''t''
        (emit (Fetch (GetStreams ''bob'' ''t'')) (emit (Fetch (GetUsers ''bob'' ''t'')) sample_world))
     = (Inr (Some (sample_channel ''bob'')),
        emit (Fetch (GetChannels ''bob'' ''t''))
          (emit (Fetch (GetStreams ''bob'' ''t'')) (emit (Fetch (GetUsers ''bob'' ''t'')) sample_world)))
   \<and> viewers (projr (fst (getChannel sample_env ''bob'' ''t'' sample_world))) = 0
   \<and> \<not> isLive (projr (fst (getChannel sample_env ''bob'' ''t'' sample_world)))
   \<and> title (projr (fst (getChannel sample_env ''bob'' ''t'' sample_world))) = ''last time''
   \<and> gameName (projr (fst (getChannel sample_env ''bob'' ''t'' sample_world))) = ''go''"
proof -
  have u: "fetchUserData sample_env ''bob'' ''t'' sample_world
     = (Inr (Some (sample_user ''bob'')), emit (Fetch (GetUsers ''bob'' ''t'')) sample_world)"
    by (rule sample_bob_user)
  have s: "fetchStreamData sample_env (ud_id (sample_user ''bob'')) ''t''
        (emit (Fetch (GetUsers ''bob'' ''t'')) sample_world)
     = (Inr None, emit (Fetch (GetStreams ''bob'' ''t'')) (emit (Fetch (GetUsers ''bob'' ''t'')) sample_world))"
    by (simp add: sample_user_def sample_bob_stream)
  have c: "fetchChannelData sample_env (ud_id (sample_user ''bob'')) ''t''
        (emit (Fetch (GetStreams ''bob'' ''t'')) (emit (Fetch (GetUsers ''bob'' ''t'')) sample_world))
     = (Inr (Some (sample_channel ''bob'')),
        emit (Fetch (GetChannels ''bob'' ''t''))
          (emit (Fetch (GetStreams ''bob'' ''t'')) (emit (Fetch (GetUsers ''bob'' ''t'')) sample_world)))"
    by (simp add: sample_user_def sample_bob_channel)
  show ?thesis
    using u s c getChannel_offline_channel [OF u s c]
    by (simp add: sample_channel_def)
qed

text \<open>
  C7. \<open>getChannel\<close> fails with NotFound (status 404) when the user lookup succeeds with
  zero records, and when the user exists but both the stream lookup and the channel
  lookup return no record.
\<close>

theorem getChannel_not_found:
  "(ok (users_api env (trace w) name tok) \<and> json (users_api env (trace w) name tok) = []
      \<longrightarrow> fst (getChannel env name tok w) = Inl (NotFoundError ''Channel not found''))
   \<and> (fetchUserData env name tok w = (Inr (Some userData), w1)
        \<and> fetchStreamData env (ud_id userData) tok w1 = (Inr None, w2)
        \<and> fetchChannelData env (ud_id userData) tok w2 = (Inr None, w3)
      \<longrightarrow> getChannel env name tok w = (Inl (NotFoundError ''Channel not found''), w3))
   \<and> onError (NotFoundError ''Channel not found'') = 404"
  by (simp add: getChannel_def fetchUserData_def first_def NotFoundError_def)

lemma sample_bare_user:
  "fetchUserData sample_env ''bare'' ''t'' sample_world
     = (Inr (Some (sample_user ''bare'')), emit (Fetch (GetUsers ''bare'' ''t'')) sample_world)"
  by (simp add: fetchUserData_def sample_env_def reply_def ok_def first_def)

lemma sample_bare_stream:
  "fetchStreamData sample_env ''bare'' ''t'' w = (Inr None, emit (Fetch (GetStreams ''bare'' ''t'')) w)"
  by (simp add: fetchStreamData_def sample_env_def reply_def ok_def first_def)

lemma sample_bare_channel:
  "fetchChannelData sample_env ''bare'' ''t'' w = (Inr None, emit (Fetch (GetChannels ''bare'' ''t'')) w)"
  by (simp add: fetchChannelData_def sample_env_def reply_def ok_def first_def)

text \<open>On the sample upstream \<open>ghost\<close> does not exist, and \<open>bare\<close> has neither stream nor metadata.\<close>

theorem getChannel_not_found_witness:
  "ok (users_api sample_env (trace sample_world) ''ghost'' ''t'')
   \<and> json (users_api sample_env (trace sample_world) ''ghost'' ''t'') = []
   \<and> fst (getChannel sample_env ''ghost'' ''t'' sample_world) = Inl (HTTPException 404 ''Channel not found'')
   \<and> fetchUserData sample_env ''bare'' ''t'' sample_world
       = (Inr (Some (sample_user ''bare'')), emit (Fetch (GetUsers ''bare'' ''t'')) sample_world)
   \<and> fetchStreamData sample_env (ud_id (sample_user ''bare'')) ''t''
        (emit (Fetch (GetUsers ''bare'' ''t'')) sample_world)
       = (Inr None, emit (Fetch (GetStreams ''bare'' ''t'')) (emit (Fetch (GetUsers ''bare'' ''t'')) sample_world))
   \<and> fetchChannelData sample_env (ud_id (sample_user ''bare'')) ''t''
        (emit (Fetch (GetStreams ''bare'' ''t'')) (emit (Fetch (GetUsers ''bare'' ''t'')) sample_world))
       = (Inr None, emit (Fetch (GetChannels ''bare'' ''t''))
            (emit (Fetch (GetStreams ''bare'' ''t'')) (emit (Fetch (GetUsers ''bare'' ''t'')) sample_world)))
   \<and> fst (getChannel sample_env ''bare'' ''t'' sample_world) = Inl (HTTPException 404 ''Channel not found'')"
proof -
  have g: "ok (users_api sample_env (trace sample_world) ''ghost'' ''t'')
     \<and> json (users_api sample_env (trace sample_world) ''ghost'' ''t'') = []"
    by (simp add: sample_env_def reply_def ok_def)
  have u: "fetchUserData sample_env ''bare'' ''t'' sample_world
       = (Inr (Some (sample_user ''bare'')), emit (Fetch (GetUsers ''bare'' ''t'')) sample_world)"
    by (rule sample_bare_user)
  have s: "fetchStreamData sample_env (ud_id (sample_user ''bare'')) ''t''
        (emit (Fetch (GetUsers ''bare'' ''t'')) sample_world)
       = (Inr None, emit (Fetch (GetStreams ''bare'' ''t'')) (emit (Fetch (GetUsers ''bare'' ''t'')) sample_world))"
    by (simp add: sample_user_def sample_bare_stream)
  have c: "fetchChannelData sample_env (ud_id (sample_user ''bare'')) ''t''
        (emit (Fetch (GetStreams ''bare'' ''t'')) (emit (Fetch (GetUsers ''bare'' ''t'')) sample_world))
       = (Inr None, emit (Fetch (GetChannels ''bare'' ''t''))
            (emit (Fetch (GetStreams ''bare'' ''t'')) (emit (Fetch (GetUsers ''bare'' ''t'')) sample_world)))"
    by (simp add: sample_user_def sample_bare_channel)
  have a: "fst (getChannel sample_env ''ghost'' ''t'' sample_world) = Inl (NotFoundError ''Channel not found'')"
    using getChannel_not_found [of sample_env sample_world "''ghost''" "''t''"] g by blast
  have b: "fst (getChannel sample_env ''bare'' ''t'' sample_world) = Inl (NotFoundError ''Channel not found'')"
    using getChannel_not_found [of sample_env sample_world "''bare''" "''t''" "sample_user ''bare''"] u s c
    by simp
  show ?thesis using g u s c a b by (simp add: NotFoundError_def)
qed

section \<open>refreshAccessToken: the two failures\<close>

text \<open>
  C9. \<open>refreshAccessToken\<close> turns an upstream 400 into the exception with status 400 and
  message \<open>INVALID_TOKEN\<close>, which is not the generic 500; every other non-success answer
  becomes an exception with status 500; a success answer is returned as it is.
\<close>

theorem refreshAccessToken_status:
  "(status (token_api env (trace w) refreshToken) = 400
      \<longrightarrow> fst (refreshAccessToken env refreshToken w) = Inl (HTTPException 400 ''INVALID_TOKEN'')
          \<and> onError (HTTPException 400 ''INVALID_TOKEN'') \<noteq> 500)
   \<and> (\<not> ok (token_api env (trace w) refreshToken) \<and> status (token_api env (trace w) refreshToken) \<noteq> 400
      \<longrightarrow> (\<exists>message. fst (refreshAccessToken env refreshToken w) = Inl (HTTPException 500 message)))
   \<and> (ok (token_api env (trace w) refreshToken)
      \<longrightarrow> fst (refreshAccessToken env refreshToken w) = Inr (json (token_api env (trace w) refreshToken)))"
  by (simp add: refreshAccessToken_def ok_def Let_def)

text \<open>The sample token endpoint rejects \<open>revoked\<close> with 400, answers 503 to \<open>gone\<close> and trades \<open>refresh0\<close>.\<close>

theorem refreshAccessToken_status_witness:
  "status (token_api sample_env (trace sample_world) ''revoked'') = 400
   \<and> fst (refreshAccessToken sample_env ''revoked'' sample_world) = Inl (HTTPException 400 ''INVALID_TOKEN'')
   \<and> \<not> ok (token_api sample_env (trace sample_world) ''gone'')
   \<and> status (token_api sample_env (trace sample_world) ''gone'') \<noteq> 400
   \<and> (\<exists>message. fst (refreshAccessToken sample_env ''gone'' sample_world) = Inl (HTTPException 500 message))
   \<and> ok (token_api sample_env (trace sample_world) ''refresh0'')
   \<and> fst (refreshAccessToken sample_env ''refresh0'' sample_world) = Inr (sample_token ''access1'' ''refresh1'')"
proof -
  have a: "status (token_api sample_env (trace sample_world) ''revoked'') = 400"
    by (simp add: sample_env_def reply_def)
  have b: "\<not> ok (token_api sample_env (trace sample_world) ''gone'')
     \<and> status (token_api sample_env (trace sample_world) ''gone'') \<noteq> 400"
    by (simp add: sample_env_def reply_def ok_def)
  have c: "ok (token_api sample_env (trace sample_world) ''refresh0'')
     \<and> json (token_api sample_env (trace sample_world) ''refresh0'') = sample_token ''access1'' ''refresh1''"
    by (simp add: sample_env_def reply_def ok_def)
  show ?thesis
    using a b c
      refreshAccessToken_status [of sample_env sample_world "''revoked''"]
      refreshAccessToken_status [of sample_env sample_world "''gone''"]
      refreshAccessToken_status [of sample_env sample_world "''refresh0''"]
    by simp
qed

section \<open>Facts about sort, Promise.all and the fan-out\<close>

subsection \<open>Sorting\<close>

lemma set_insert_by: "set (insert_by compareFn x ys) = insert x (set ys)"
  by (induction ys) auto

lemma sorted_insert_by_viewers:
  "sorted_wrt (\<lambda>a b. viewers b \<le> viewers a) ys
   \<Longrightarrow> sorted_wrt (\<lambda>a b. viewers b \<le> viewers a) (insert_by (\<lambda>a b. viewers b - viewers a) x ys)"
  by (induction ys) (auto simp: set_insert_by)

lemma sorted_sort_by_viewers:
  "sorted_wrt (\<lambda>a b. viewers b \<le> viewers a) (sort_by (\<lambda>a b. viewers b - viewers a) xs)"
  unfolding sort_by_def by (induction xs) (auto intro: sorted_insert_by_viewers)

lemma set_sort_by: "set (sort_by compareFn xs) = set xs"
  unfolding sort_by_def by (induction xs) (auto simp: set_insert_by)

lemma length_insert_by: "length (insert_by compareFn x ys) = Suc (length ys)"
  by (induction ys) auto

lemma length_sort_by: "length (sort_by compareFn xs) = length xs"
  unfolding sort_by_def by (induction xs) (auto simp: length_insert_by)

subsection \<open>Promise.all\<close>

lemma rejected_set: "e \<in> set (rejected rs) \<longleftrightarrow> Inl e \<in> set rs"
  by (induction rs rule: rejected.induct) auto

lemma rejected_Nil_iff: "rejected rs = [] \<longleftrightarrow> (\<forall>e. Inl e \<notin> set rs)"
  by (induction rs rule: rejected.induct) auto

lemma length_fulfilled: "rejected rs = [] \<Longrightarrow> length (fulfilled rs) = length rs"
  by (induction rs rule: rejected.induct) auto

lemma Promise_all_rejects:
  assumes "Inl e \<in> set rs"
  shows "\<exists>e'. Promise_all env (rs, w) = (Inl e', w) \<and> Inl e' \<in> set rs"
proof -
  from assms have "rejected rs \<noteq> []" by (simp add: rejected_Nil_iff) blast
  then obtain x xs where r: "rejected rs = x # xs" by (cases "rejected rs") auto
  let ?i = "settles_first env (trace w) mod length (x # xs)"
  have "?i < length (x # xs)" by simp
  then have "(x # xs) ! ?i \<in> set (x # xs)" by (rule nth_mem)
  then have "Inl ((x # xs) ! ?i) \<in> set rs" using r rejected_set [of _ rs] by simp
  moreover have "Promise_all env (rs, w) = (Inl ((x # xs) ! ?i), w)"
    by (simp add: Promise_all_def r)
  ultimately show ?thesis by blast
qed

lemma Promise_all_fulfils:
  "Promise_all env (rs, w) = (Inr vs, w') \<Longrightarrow> rejected rs = [] \<and> vs = fulfilled rs \<and> w' = w"
  by (auto simp: Promise_all_def split: list.splits)

subsection \<open>fan_out\<close>

lemma fst_fan_out_Cons:
  "fst (fan_out f (x # xs) w) = fst (f x w) # fst (fan_out f xs (snd (f x w)))"
  by (simp split: prod.splits)

lemma snd_fan_out_Cons:
  "snd (fan_out f (x # xs) w) = snd (fan_out f xs (snd (f x w)))"
  by (simp split: prod.splits)

lemma fan_out_length: "length (fst (fan_out f xs w)) = length xs"
  by (induction xs arbitrary: w) (simp_all add: fst_fan_out_Cons del: fan_out.simps(2))

lemma fan_out_nth:
  "i < length xs \<Longrightarrow> fst (fan_out f xs w) ! i = fst (f (xs ! i) (snd (fan_out f (take i xs) w)))"
proof (induction xs arbitrary: w i)
  case Nil
  then show ?case by simp
next
  case (Cons x xs)
  show ?case
  proof (cases i)
    case 0
    then show ?thesis by (simp add: fst_fan_out_Cons del: fan_out.simps(2))
  next
    case (Suc j)
    with Cons.prems have "j < length xs" by simp
    from Cons.IH [OF this, of "snd (f x w)"] Suc show ?thesis
      by (simp add: fst_fan_out_Cons snd_fan_out_Cons del: fan_out.simps(2))
  qed
qed

lemma fan_out_results:
  "r \<in> set (fst (fan_out f xs w)) \<Longrightarrow> \<exists>x w'. x \<in> set xs \<and> r = fst (f x w')"
proof (induction xs arbitrary: w)
  case Nil
  then show ?case by simp
next
  case (Cons x xs)
  from Cons.prems have "r = fst (f x w) \<or> r \<in> set (fst (fan_out f xs (snd (f x w))))"
    by (simp add: fst_fan_out_Cons del: fan_out.simps(2))
  then show ?case
  proof
    assume "r = fst (f x w)"
    then show ?thesis by auto
  next
    assume "r \<in> set (fst (fan_out f xs (snd (f x w))))"
    from Cons.IH [OF this] show ?thesis by auto
  qed
qed

lemma searchItem_world:
  "snd (searchItem env tok s w) = emit (Fetch (GetStreams (se_id s) tok)) w"
  by (auto simp: searchItem_def fetchStreamData_def Let_def split: prod.splits sum.splits)

lemma followedItem_world:
  "snd (followedItem env tok s w) = emit (Fetch (GetUsers (fs_user_login s) tok)) w"
  by (auto simp: followedItem_def fetchUserData_def Let_def split: prod.splits sum.splits option.splits)

lemma fan_out_searchItem_trace:
  "trace (snd (fan_out (searchItem env tok) xs w))
     = trace w @ map (\<lambda>s. Fetch (GetStreams (se_id s) tok)) xs"
proof (induction xs arbitrary: w)
  case Nil
  then show ?case by simp
next
  case (Cons x xs)
  show ?case by (simp add: snd_fan_out_Cons Cons.IH searchItem_world emit_def del: fan_out.simps(2))
qed

lemma fan_out_followedItem_trace:
  "trace (snd (fan_out (followedItem env tok) xs w))
     = trace w @ map (\<lambda>s. Fetch (GetUsers (fs_user_login s) tok)) xs"
proof (induction xs arbitrary: w)
  case Nil
  then show ?case by simp
next
  case (Cons x xs)
  show ?case by (simp add: snd_fan_out_Cons Cons.IH followedItem_world emit_def del: fan_out.simps(2))
qed

lemma searchItem_rejects:
  "\<not> ok (streams_api env (trace w) (se_id s) tok)
   \<Longrightarrow> \<exists>message. fst (searchItem env tok s w) = Inl (HTTPException 500 message)"
  by (simp add: searchItem_def fetchStreamData_def Let_def)

lemma searchItem_error:
  "fst (searchItem env tok s w) = Inl e \<Longrightarrow> \<exists>message. e = HTTPException 500 message"
  by (auto simp: searchItem_def fetchStreamData_def Let_def split: if_splits)

lemma followedItem_rejects:
  "\<not> ok (users_api env (trace w) (fs_user_login s) tok)
   \<Longrightarrow> \<exists>message. fst (followedItem env tok s w) = Inl (HTTPException 500 message)"
  by (simp add: followedItem_def fetchUserData_def Let_def)

lemma followedItem_error:
  "fst (followedItem env tok s w) = Inl e \<Longrightarrow> onError e = 500"
  by (auto simp: followedItem_def fetchUserData_def Let_def split: if_splits option.splits)

section \<open>searchStreams: the order of the answer\<close>

lemma searchStreams_fulfils:
  assumes "searchStreams env q tok w = (Inr out, w')"
  shows "ok (search_api env (trace w) q tok)
     \<and> out = sort_by (\<lambda>a b. viewers b - viewers a)
          (fulfilled (fst (fan_out (searchItem env tok) (json (search_api env (trace w) q tok))
             (emit (Fetch (GetSearchChannels q tok)) w))))
     \<and> rejected (fst (fan_out (searchItem env tok) (json (search_api env (trace w) q tok))
             (emit (Fetch (GetSearchChannels q tok)) w))) = []"
proof -
  let ?p = "fan_out (searchItem env tok) (json (search_api env (trace w) q tok))
             (emit (Fetch (GetSearchChannels q tok)) w)"
  from assms have o: "ok (search_api env (trace w) q tok)"
    by (auto simp: searchStreams_def Let_def split: if_splits)
  with assms obtain vs where p: "Promise_all env ?p = (Inr vs, w')"
    and out: "out = sort_by (\<lambda>a b. viewers b - viewers a) vs"
    by (auto simp: searchStreams_def Let_def split: prod.splits sum.splits)
  from p have "Promise_all env (fst ?p, snd ?p) = (Inr vs, w')" by simp
  from Promise_all_fulfils [OF this] o out show ?thesis by simp
qed

lemma sample_chess_built:
  "fan_out (searchItem sample_env ''t'') (json (search_api sample_env [] ''chess'' ''t''))
      (emit (Fetch (GetSearchChannels ''chess'' ''t'')) sample_world)
   = ([Inr \<lparr>channelId = ''five'', displayName = ''five'', loginName = ''five'',
            profileImageUrl = [], title = ''on air'', gameName = ''chess'', viewers = 5, isLive = True\<rparr>,
       Inr \<lparr>channelId = ''fifty'', displayName = ''fifty'', loginName = ''fifty'',
            profileImageUrl = [], title = ''on air'', gameName = ''chess'', viewers = 50, isLive = True\<rparr>,
       Inr \<lparr>channelId = ''zero'', displayName = ''zero'', loginName = ''zero'',
            profileImageUrl = [], title = [], gameName = ''chess'', viewers = 0, isLive = True\<rparr>],
      \<lparr>trace = [Fetch (GetSearchChannels ''chess'' ''t''), Fetch (GetStreams ''five'' ''t''),
                Fetch (GetStreams ''fifty'' ''t''), Fetch (GetStreams ''zero'' ''t'')],
        accounts = [sample_account]\<rparr>)"
  by (simp add: sample_env_def reply_def ok_def first_def searchItem_def fetchStreamData_def
      sample_search_def sample_stream_def sample_world_def emit_def num_or_def str_or_def)

lemma sample_chess_sorted:
  "searchStreams sample_env ''chess'' ''t'' sample_world
   = (Inr [\<lparr>channelId = ''fifty'', displayName = ''fifty'', loginName = ''fifty'',
            profileImageUrl = [], title = ''on air'', gameName = ''chess'', viewers = 50, isLive = True\<rparr>,
           \<lparr>channelId = ''five'', displayName = ''five'', loginName = ''five'',
            profileImageUrl = [], title = ''on air'', gameName = ''chess'', viewers = 5, isLive = True\<rparr>,
           \<lparr>channelId = ''zero'', displayName = ''zero'', loginName = ''zero'',
            profileImageUrl = [], title = [], gameName = ''chess'', viewers = 0, isLive = True\<rparr>],
      \<lparr>trace = [Fetch (GetSearchChannels ''chess'' ''t''), Fetch (GetStreams ''five'' ''t''),
                Fetch (GetStreams ''fifty'' ''t''), Fetch (GetStreams ''zero'' ''t'')],
        accounts = [sample_account]\<rparr>)"
proof -
  have o: "ok (search_api sample_env (trace sample_world) ''chess'' ''t'')"
    by (simp add: sample_env_def reply_def ok_def)
  have t: "trace sample_world = []" by (simp add: sample_world_def)
  show ?thesis
    unfolding searchStreams_def Let_def t
    using o [unfolded t]
    by (simp add: sample_chess_built Promise_all_def sort_by_def)
qed

text \<open>
  C8. Whenever \<open>searchStreams\<close> succeeds, its list is sorted by viewers in descending
  order (every earlier element has at least the viewers of every later one) and has one
  Streamer per search result. On the sample upstream the search for \<open>chess\<close> builds
  Streamers with viewers 5, 50, 0 in that order, and the answer has them as 50, 5, 0.
\<close>

theorem searchStreams_sorted:
  "(searchStreams env q tok w = (Inr out, w')
      \<longrightarrow> sorted_wrt (\<lambda>a b. viewers b \<le> viewers a) out
          \<and> length out = length (json (search_api env (trace w) q tok)))
   \<and> map viewers (fulfilled (fst (fan_out (searchItem sample_env ''t'')
          (json (search_api sample_env [] ''chess'' ''t''))
          (emit (Fetch (GetSearchChannels ''chess'' ''t'')) sample_world)))) = [5, 50, 0]
   \<and> map_sum id (map viewers) (fst (searchStreams sample_env ''chess'' ''t'' sample_world))
        = Inr [50, 5, 0]"
proof -
  have g: "sorted_wrt (\<lambda>a b. viewers b \<le> viewers a) out
          \<and> length out = length (json (search_api env (trace w) q tok))"
    if a: "searchStreams env q tok w = (Inr out, w')"
  proof -
    let ?rs = "fst (fan_out (searchItem env tok) (json (search_api env (trace w) q tok))
             (emit (Fetch (GetSearchChannels q tok)) w))"
    from searchStreams_fulfils [OF a]
    have out: "out = sort_by (\<lambda>a b. viewers b - viewers a) (fulfilled ?rs)"
      and r: "rejected ?rs = []" by simp_all
    have "length out = length ?rs"
      by (simp add: out length_sort_by length_fulfilled [OF r])
    then show ?thesis
      by (simp add: out sorted_sort_by_viewers fan_out_length)
  qed
  show ?thesis
    using g by (simp add: sample_chess_built sample_chess_sorted)
qed

text \<open>The successful sample search, and its sorted answer.\<close>

theorem searchStreams_sorted_witness:
  "searchStreams sample_env ''chess'' ''t'' sample_world
   = (Inr [\<lparr>channelId = ''fifty'', displayName = ''fifty'', loginName = ''fifty'',
            profileImageUrl = [], title = ''on air'', gameName = ''chess'', viewers = 50, isLive = True\<rparr>,
           \<lparr>channelId = ''five'', displayName = ''five'', loginName = ''five'',
            profileImageUrl = [], title = ''on air'', gameName = ''chess'', viewers = 5, isLive = True\<rparr>,
           \<lparr>channelId = ''zero'', displayName = ''zero'', loginName = ''zero'',
            profileImageUrl = [], title = [], gameName = ''chess'', viewers = 0, isLive = True\<rparr>],
      \<lparr>trace = [Fetch (GetSearchChannels ''chess'' ''t''), Fetch (GetStreams ''five'' ''t''),
                Fetch (GetStreams ''fifty'' ''t''), Fetch (GetStreams ''zero'' ''t'')],
        accounts = [sample_account]\<rparr>)
   \<and> sorted_wrt (\<lambda>a b. viewers b \<le> viewers a)
        [\<lparr>channelId = ''fifty'', displayName = ''fifty'', loginName = ''fifty'',
            profileImageUrl = [], title = ''on air'', gameName = ''chess'', viewers = 50, isLive = True\<rparr>,
           \<lparr>channelId = ''five'', displayName = ''five'', loginName = ''five'',
            profileImageUrl = [], title = ''on air'', gameName = ''chess'', viewers = 5, isLive = True\<rparr>,
           \<lparr>channelId = ''zero'', displayName = ''zero'', loginName = ''zero'',
            profileImageUrl = [], title = [], gameName = ''chess'', viewers = 0, isLive = True\<rparr>]"
  using sample_chess_sorted
    searchStreams_sorted [of sample_env "''chess''" "''t''" sample_world _
      "\<lparr>trace = [Fetch (GetSearchChannels ''chess'' ''t''), Fetch (GetStreams ''five'' ''t''),
                Fetch (GetStreams ''fifty'' ''t''), Fetch (GetStreams ''zero'' ''t'')],
        accounts = [sample_account]\<rparr>"]
  by blast

section \<open>One failed lookup fails the whole fan-out\<close>

lemma searchStreams_item_fails:
  assumes o: "ok (search_api env (trace w) q tok)"
    and i: "i < length (json (search_api env (trace w) q tok))"
    and f: "\<not> ok (streams_api env
               (trace w @ Fetch (GetSearchChannels q tok)
                  # map (\<lambda>s. Fetch (GetStreams (se_id s) tok)) (take i (json (search_api env (trace w) q tok))))
               (se_id (json (search_api env (trace w) q tok) ! i)) tok)"
  shows "\<exists>message w'. searchStreams env q tok w = (Inl (HTTPException 500 message), w')"
proof -
  let ?xs = "json (search_api env (trace w) q tok)"
  let ?w1 = "emit (Fetch (GetSearchChannels q tok)) w"
  let ?rs = "fst (fan_out (searchItem env tok) ?xs ?w1)"
  let ?wi = "snd (fan_out (searchItem env tok) (take i ?xs) ?w1)"
  have "trace ?wi = trace w @ Fetch (GetSearchChannels q tok)
          # map (\<lambda>s. Fetch (GetStreams (se_id s) tok)) (take i ?xs)"
    by (simp add: fan_out_searchItem_trace emit_def)
  with f have "\<not> ok (streams_api env (trace ?wi) (se_id (?xs ! i)) tok)" by simp
  from searchItem_rejects [OF this] obtain m
    where "fst (searchItem env tok (?xs ! i) ?wi) = Inl (HTTPException 500 m)" by blast
  with fan_out_nth [OF i, of "searchItem env tok" ?w1]
  have "?rs ! i = Inl (HTTPException 500 m)" by simp
  moreover have "i < length ?rs" using i by (simp add: fan_out_length)
  ultimately have "Inl (HTTPException 500 m) \<in> set ?rs" by (metis nth_mem)
  from Promise_all_rejects [OF this, of env "snd (fan_out (searchItem env tok) ?xs ?w1)"]
  obtain e where p: "Promise_all env (fan_out (searchItem env tok) ?xs ?w1)
                       = (Inl e, snd (fan_out (searchItem env tok) ?xs ?w1))"
    and e: "Inl e \<in> set ?rs" by auto
  from fan_out_results [OF e] obtain x w'' where "Inl e = fst (searchItem env tok x w'')" by blast
  then obtain m' where "e = HTTPException 500 m'" using searchItem_error [of env tok x w'' e] by auto
  with p o show ?thesis by (simp add: searchStreams_def Let_def)
qed

lemma fetchFollowedStreams_item_fails:
  assumes o: "ok (followed_api env (trace w) acc tok)"
    and i: "i < length (json (followed_api env (trace w) acc tok))"
    and f: "\<not> ok (users_api env
               (trace w @ Fetch (GetStreamsFollowed acc tok)
                  # map (\<lambda>s. Fetch (GetUsers (fs_user_login s) tok)) (take i (json (followed_api env (trace w) acc tok))))
               (fs_user_login (json (followed_api env (trace w) acc tok) ! i)) tok)"
  shows "\<exists>e w'. fetchFollowedStreams env acc tok w = Some (Inl e, w') \<and> onError e = 500"
proof -
  let ?xs = "json (followed_api env (trace w) acc tok)"
  let ?w1 = "emit (Fetch (GetStreamsFollowed acc tok)) w"
  let ?rs = "fst (fan_out (followedItem env tok) ?xs ?w1)"
  let ?wi = "snd (fan_out (followedItem env tok) (take i ?xs) ?w1)"
  have "trace ?wi = trace w @ Fetch (GetStreamsFollowed acc tok)
          # map (\<lambda>s. Fetch (GetUsers (fs_user_login s) tok)) (take i ?xs)"
    by (simp add: fan_out_followedItem_trace emit_def)
  with f have "\<not> ok (users_api env (trace ?wi) (fs_user_login (?xs ! i)) tok)" by simp
  from followedItem_rejects [OF this] obtain m
    where "fst (followedItem env tok (?xs ! i) ?wi) = Inl (HTTPException 500 m)" by blast
  with fan_out_nth [OF i, of "followedItem env tok" ?w1]
  have "?rs ! i = Inl (HTTPException 500 m)" by simp
  moreover have "i < length ?rs" using i by (simp add: fan_out_length)
  ultimately have "Inl (HTTPException 500 m) \<in> set ?rs" by (metis nth_mem)
  from Promise_all_rejects [OF this, of env "snd (fan_out (followedItem env tok) ?xs ?w1)"]
  obtain e where p: "Promise_all env (fan_out (followedItem env tok) ?xs ?w1)
                       = (Inl e, snd (fan_out (followedItem env tok) ?xs ?w1))"
    and e: "Inl e \<in> set ?rs" by auto
  from fan_out_results [OF e] obtain x w'' where "Inl e = fst (followedItem env tok x w'')" by blast
  then have "onError e = 500" using followedItem_error [of env tok x w'' e] by auto
  moreover have "fetchFollowedStreams env acc tok w
      = Some (Promise_all env (fan_out (followedItem env tok) ?xs ?w1))"
    using o by (subst fetchFollowedStreams.simps) (simp add: Let_def)
  ultimately show ?thesis using p by simp
qed

text \<open>
  C10. If the search succeeds and the stream lookup of one of its results fails (result
  \<open>i\<close>, asked after the lookups of the results before it), \<open>searchStreams\<close> fails as a
  whole with an exception of status 500. If the followed-streams fetch succeeds and the
  user-profile lookup of one of its streams fails, \<open>fetchFollowedStreams\<close> fails as a
  whole with an error the client sees as status 500. No list is returned in either case.
\<close>

theorem fan_out_all_or_nothing:
  "(ok (search_api env (trace w) q tok)
      \<and> i < length (json (search_api env (trace w) q tok))
      \<and> \<not> ok (streams_api env
               (trace w @ Fetch (GetSearchChannels q tok)
                  # map (\<lambda>s. Fetch (GetStreams (se_id s) tok)) (take i (json (search_api env (trace w) q tok))))
               (se_id (json (search_api env (trace w) q tok) ! i)) tok)
      \<longrightarrow> (\<exists>message w'. searchStreams env q tok w = (Inl (HTTPException 500 message), w')))
   \<and> (ok (followed_api env (trace w) acc utok)
      \<and> j < length (json (followed_api env (trace w) acc utok))
      \<and> \<not> ok (users_api env
               (trace w @ Fetch (GetStreamsFollowed acc utok)
                  # map (\<lambda>s. Fetch (GetUsers (fs_user_login s) utok)) (take j (json (followed_api env (trace w) acc utok))))
               (fs_user_login (json (followed_api env (trace w) acc utok) ! j)) utok)
      \<longrightarrow> (\<exists>e w'. fetchFollowedStreams env acc utok w = Some (Inl e, w') \<and> onError e = 500))"
  using searchStreams_item_fails [of env w q tok i] fetchFollowedStreams_item_fails [of env w acc utok j]
  by blast

text \<open>
  On the sample upstream the search for \<open>go\<close> has the result \<open>down\<close> in second place,
  and the account \<open>acc2\<close> follows \<open>down\<close> in second place.
\<close>

theorem fan_out_all_or_nothing_witness:
  "ok (search_api sample_env (trace sample_world) ''go'' ''t'')
   \<and> 1 < length (json (search_api sample_env (trace sample_world) ''go'' ''t''))
   \<and> \<not> ok (streams_api sample_env
               (trace sample_world @ Fetch (GetSearchChannels ''go'' ''t'')
                  # map (\<lambda>s. Fetch (GetStreams (se_id s) ''t''))
                      (take 1 (json (search_api sample_env (trace sample_world) ''go'' ''t''))))
               (se_id (json (search_api sample_env (trace sample_world) ''go'' ''t'') ! 1)) ''t'')
   \<and> (\<exists>message w'. searchStreams sample_env ''go'' ''t'' sample_world = (Inl (HTTPException 500 message), w'))
   \<and> ok (followed_api sample_env (trace sample_world) ''acc2'' ''access1'')
   \<and> 1 < length (json (followed_api sample_env (trace sample_world) ''acc2'' ''access1''))
   \<and> \<not> ok (users_api sample_env
               (trace sample_world @ Fetch (GetStreamsFollowed ''acc2'' ''access1'')
                  # map (\<lambda>s. Fetch (GetUsers (fs_user_login s) ''access1''))
                      (take 1 (json (followed_api sample_env (trace sample_world) ''acc2'' ''access1''))))
               (fs_user_login (json (followed_api sample_env (trace sample_world) ''acc2'' ''access1'') ! 1)) ''access1'')
   \<and> (\<exists>e w'. fetchFollowedStreams sample_env ''acc2'' ''access1'' sample_world = Some (Inl e, w')
          \<and> onError e = 500)"
proof -
  have s: "ok (search_api sample_env (trace sample_world) ''go'' ''t'')
   \<and> 1 < length (json (search_api sample_env (trace sample_world) ''go'' ''t''))
   \<and> \<not> ok (streams_api sample_env
               (trace sample_world @ Fetch (GetSearchChannels ''go'' ''t'')
                  # map (\<lambda>s. Fetch (GetStreams (se_id s) ''t''))
                      (take 1 (json (search_api sample_env (trace sample_world) ''go'' ''t''))))
               (se_id (json (search_api sample_env (trace sample_world) ''go'' ''t'') ! 1)) ''t'')"
    by (simp add: sample_env_def reply_def ok_def sample_search_def)
  have f: "ok (followed_api sample_env (trace sample_world) ''acc2'' ''access1'')
   \<and> 1 < length (json (followed_api sample_env (trace sample_world) ''acc2'' ''access1''))
   \<and> \<not> ok (users_api sample_env
               (trace sample_world @ Fetch (GetStreamsFollowed ''acc2'' ''access1'')
                  # map (\<lambda>s. Fetch (GetUsers (fs_user_login s) ''access1''))
                      (take 1 (json (followed_api sample_env (trace sample_world) ''acc2'' ''access1''))))
               (fs_user_login (json (followed_api sample_env (trace sample_world) ''acc2'' ''access1'') ! 1)) ''access1'')"
    by (simp add: sample_env_def reply_def ok_def sample_followed_def)
  show ?thesis
    using s f
      fan_out_all_or_nothing [of sample_env sample_world "''go''" "''t''" 1 "''acc2''" "''access1''" 1]
    by blast
qed

section \<open>fetchFollowedStreams: refresh and retry\<close>

lemma world_eq: "w\<lparr>trace := t, accounts := a\<rparr> = \<lparr>trace = t, accounts = a\<rparr>"
  by (cases w) simp

lemma find_account_in_table:
  "find P rows = Some a \<Longrightarrow> list_ex (\<lambda>row. acct_id row = acct_id a) rows"
  by (auto simp: find_Some_iff list_ex_iff)

lemma fetchFollowedStreams_refresh_round:
  assumes u: "status (followed_api env (trace w) acc tok) = 401"
    and a: "find (\<lambda>row. acct_accountId row = acc \<and> acct_providerId row = ''twitch'') (accounts w) = Some a"
    and r: "acct_refreshToken a = Some r" "r \<noteq> []"
    and t: "ok (token_api env (trace w @ [Fetch (GetStreamsFollowed acc tok), FindFirst acc ''twitch'']) r)"
  shows "fetchFollowedStreams env acc tok w =
         fetchFollowedStreams env acc
           (access_token (json (token_api env (trace w @ [Fetch (GetStreamsFollowed acc tok), FindFirst acc ''twitch'']) r)))
           \<lparr>trace = trace w @
              [Fetch (GetStreamsFollowed acc tok), FindFirst acc ''twitch'', Fetch (PostRefreshToken r),
               Update (acct_id a)
                 (access_token (json (token_api env (trace w @ [Fetch (GetStreamsFollowed acc tok), FindFirst acc ''twitch'']) r)))
                 (refresh_token (json (token_api env (trace w @ [Fetch (GetStreamsFollowed acc tok), FindFirst acc ''twitch'']) r)))
                 (date_now env (trace w @ [Fetch (GetStreamsFollowed acc tok), FindFirst acc ''twitch'', Fetch (PostRefreshToken r)])
                    + expires_in (json (token_api env (trace w @ [Fetch (GetStreamsFollowed acc tok), FindFirst acc ''twitch'']) r)) * 1000)],
            accounts = map (\<lambda>row. if acct_id row = acct_id a
                 then row\<lparr>acct_accessToken := Some (access_token (json (token_api env (trace w @ [Fetch (GetStreamsFollowed acc tok), FindFirst acc ''twitch'']) r))),
                         acct_refreshToken := Some (refresh_token (json (token_api env (trace w @ [Fetch (GetStreamsFollowed acc tok), FindFirst acc ''twitch'']) r))),
                         acct_accessTokenExpiresAt := Some (date_now env (trace w @ [Fetch (GetStreamsFollowed acc tok), FindFirst acc ''twitch'', Fetch (PostRefreshToken r)])
                    + expires_in (json (token_api env (trace w @ [Fetch (GetStreamsFollowed acc tok), FindFirst acc ''twitch'']) r)) * 1000)\<rparr>
                 else row) (accounts w)\<rparr>"
proof -
  have n: "\<not> ok (followed_api env (trace w) acc tok)" using u by (simp add: ok_def)
  have e: "list_ex (\<lambda>row. acct_id row = acct_id a) (accounts w)"
    using a by (rule find_account_in_table)
  show ?thesis
    by (subst fetchFollowedStreams.simps)
       (simp add: Let_def n u a r t e account_findFirst_def refreshAccessToken_def
          account_update_def emit_def world_eq cong: if_cong)
qed


lemma snd_Promise_all: "snd (Promise_all env p) = snd p"
  by (cases p) (simp add: Promise_all_def split: list.splits)

lemma is_refresh_users: "filter is_refresh (map (\<lambda>s. Fetch (GetUsers (f s) tok)) xs) = []"
  by (induction xs) auto

lemma is_followed_users: "filter is_followed (map (\<lambda>s. Fetch (GetUsers (f s) tok)) xs) = []"
  by (induction xs) auto

lemma fetchFollowedStreams_no_401:
  assumes "status (followed_api env (trace w) acc tok) \<noteq> 401"
  shows "\<exists>res wf. fetchFollowedStreams env acc tok w = Some (res, wf)
          \<and> refreshes wf = refreshes w \<and> followed_fetches wf = followed_fetches w + 1"
proof (cases "ok (followed_api env (trace w) acc tok)")
  case True
  let ?p = "fan_out (followedItem env tok) (json (followed_api env (trace w) acc tok))
              (emit (Fetch (GetStreamsFollowed acc tok)) w)"
  have f: "fetchFollowedStreams env acc tok w = Some (Promise_all env ?p)"
    using True by (subst fetchFollowedStreams.simps) (simp add: Let_def)
  have t: "trace (snd (Promise_all env ?p))
         = trace w @ Fetch (GetStreamsFollowed acc tok)
             # map (\<lambda>s. Fetch (GetUsers (fs_user_login s) tok)) (json (followed_api env (trace w) acc tok))"
    by (simp add: snd_Promise_all fan_out_followedItem_trace emit_def)
  have "refreshes (snd (Promise_all env ?p)) = refreshes w"
    and "followed_fetches (snd (Promise_all env ?p)) = followed_fetches w + 1"
    by (simp_all add: refreshes_def followed_fetches_def t is_refresh_users is_followed_users)
  with f show ?thesis by (metis prod.collapse)
next
  case False
  have "fetchFollowedStreams env acc tok w
      = Some (Inl (HTTPException 500
                (''Failed to fetch Followed Channels for '' @ acc @ '': ''
                   @ string_of_nat (status (followed_api env (trace w) acc tok)) @ '' ''
                   @ statusText (followed_api env (trace w) acc tok))),
              emit (Fetch (GetStreamsFollowed acc tok)) w)"
    using False assms by (subst fetchFollowedStreams.simps) (simp add: Let_def)
  then show ?thesis by (simp add: refreshes_def followed_fetches_def emit_def)
qed

lemma fetchFollowedStreams_trace_prefix:
  assumes "fetchFollowedStreams env acc tok w = Some y"
  shows "\<exists>rest. trace (snd y) = trace w @ Fetch (GetStreamsFollowed acc tok) # rest"
proof (rule fetchFollowedStreams.raw_induct
    [where P = "\<lambda>env acc tok w y. \<exists>rest. trace (snd y) = trace w @ Fetch (GetStreamsFollowed acc tok) # rest",
     OF _ assms], goal_cases)
  case (1 f env acc tok w y)
  note IH = 1(1) and body = 1(2)
  show ?case
  proof (cases "ok (followed_api env (trace w) acc tok)")
    case True
    with body have "y = Promise_all env (fan_out (followedItem env tok)
        (json (followed_api env (trace w) acc tok)) (emit (Fetch (GetStreamsFollowed acc tok)) w))"
      by (simp add: Let_def)
    then show ?thesis
      by (simp add: snd_Promise_all fan_out_followedItem_trace emit_def)
  next
    case False
    note nok = this
    show ?thesis
    proof (cases "status (followed_api env (trace w) acc tok) = 401")
      case False
      with nok body show ?thesis by (auto simp: Let_def emit_def)
    next
      case True
      with nok body show ?thesis
        by (auto simp: Let_def emit_def account_findFirst_def refreshAccessToken_def
            account_update_def split: option.splits if_splits prod.splits sum.splits
            dest!: IH)
    qed
  qed
qed

lemma fan_out_followedItem_accounts:
  "accounts (snd (fan_out (followedItem env tok) xs w)) = accounts w"
  by (induction xs arbitrary: w)
     (simp_all add: snd_fan_out_Cons followedItem_world emit_def del: fan_out.simps(2))

lemma fetchFollowedStreams_no_401_world:
  assumes "status (followed_api env (trace w) acc tok) \<noteq> 401"
  shows "\<exists>res wf rest. fetchFollowedStreams env acc tok w = Some (res, wf)
          \<and> trace wf = trace w @ Fetch (GetStreamsFollowed acc tok) # rest
          \<and> accounts wf = accounts w"
proof (cases "ok (followed_api env (trace w) acc tok)")
  case True
  let ?p = "fan_out (followedItem env tok) (json (followed_api env (trace w) acc tok))
              (emit (Fetch (GetStreamsFollowed acc tok)) w)"
  have f: "fetchFollowedStreams env acc tok w = Some (Promise_all env ?p)"
    using True by (subst fetchFollowedStreams.simps) (simp add: Let_def)
  have t: "trace (snd (Promise_all env ?p))
         = trace w @ Fetch (GetStreamsFollowed acc tok)
             # map (\<lambda>s. Fetch (GetUsers (fs_user_login s) tok)) (json (followed_api env (trace w) acc tok))"
    by (simp add: snd_Promise_all fan_out_followedItem_trace emit_def)
  have a: "accounts (snd (Promise_all env ?p)) = accounts w"
    by (simp add: snd_Promise_all fan_out_followedItem_accounts emit_def)
  from f t a show ?thesis by (metis prod.collapse)
next
  case False
  have "fetchFollowedStreams env acc tok w
      = Some (Inl (HTTPException 500
                (''Failed to fetch Followed Channels for '' @ acc @ '': ''
                   @ string_of_nat (status (followed_api env (trace w) acc tok)) @ '' ''
                   @ statusText (followed_api env (trace w) acc tok))),
              emit (Fetch (GetStreamsFollowed acc tok)) w)"
    using False assms by (subst fetchFollowedStreams.simps) (simp add: Let_def)
  then show ?thesis by (simp add: emit_def)
qed

lemma find_updated_row:
  assumes "find (\<lambda>row. acct_accountId row = acc \<and> acct_providerId row = p) rows = Some a"
  shows "find (\<lambda>row. acct_accountId row = acc \<and> acct_providerId row = p)
           (map (\<lambda>row. if acct_id row = acct_id a
                        then row\<lparr>acct_accessToken := x, acct_refreshToken := y, acct_accessTokenExpiresAt := z\<rparr>
                        else row) rows)
         = Some (a\<lparr>acct_accessToken := x, acct_refreshToken := y, acct_accessTokenExpiresAt := z\<rparr>)"
  using assms by (induction rows) (auto split: if_splits)

lemma sample_env_token0:
  "token_api sample_env tr ''refresh0'' = reply 200 (sample_token ''access1'' ''refresh1'')"
  by (simp add: sample_env_def)

lemma sample_env_now: "date_now sample_env tr = 1000"
  by (simp add: sample_env_def)

lemma sample_env_access1: "status (followed_api sample_env tr acc ''access1'') = 200"
  by (simp add: sample_env_def reply_def)

lemma sample_round_hypotheses:
  "status (followed_api sample_env (trace sample_world) ''acc'' ''access0'') = 401
   \<and> find (\<lambda>row. acct_accountId row = ''acc'' \<and> acct_providerId row = ''twitch'') (accounts sample_world)
       = Some sample_account
   \<and> acct_refreshToken sample_account = Some ''refresh0''
   \<and> ''refresh0'' \<noteq> []
   \<and> ok (token_api sample_env
         (trace sample_world @ [Fetch (GetStreamsFollowed ''acc'' ''access0''), FindFirst ''acc'' ''twitch''])
         ''refresh0'')"
  by (simp add: sample_env_def sample_world_def sample_account_def reply_def ok_def)

text \<open>
  C4. When the followed-streams fetch is answered 401, the account has a refresh token
  and the token endpoint answers the refresh, the function goes on as a new call of
  itself with the new access token in a world \<open>w4\<close> where the account row already holds
  the new access token, the new refresh token and the new expiry: all three are written
  by one \<open>update\<close>, the only one of the round, and the row found for the account has
  the new pair, never a new access token beside the old refresh token. Whenever the
  whole call returns, its trace has that update directly before the retried request.
  And the call does return when the retried request is not answered 401: it produces a
  result in a world whose trace is that of \<open>w4\<close>, then the retried request, then what
  the retry does, and whose account table is the updated one.
\<close>

theorem refresh_persisted_before_retry:
  fixes env :: env and acc tok r :: string and w :: world and a :: account
  defines "t2 \<equiv> trace w @ [Fetch (GetStreamsFollowed acc tok), FindFirst acc ''twitch'']"
  defines "twitchData \<equiv> json (token_api env t2 r)"
  defines "expiry \<equiv> date_now env (t2 @ [Fetch (PostRefreshToken r)]) + expires_in twitchData * 1000"
  defines "w4 \<equiv>
    \<lparr>trace = t2 @ [Fetch (PostRefreshToken r),
                    Update (acct_id a) (access_token twitchData) (refresh_token twitchData) expiry],
     accounts = map (\<lambda>row. if acct_id row = acct_id a
                            then row\<lparr>acct_accessToken := Some (access_token twitchData),
                                     acct_refreshToken := Some (refresh_token twitchData),
                                     acct_accessTokenExpiresAt := Some expiry\<rparr>
                            else row) (accounts w)\<rparr>"
  assumes unauthorized: "status (followed_api env (trace w) acc tok) = 401"
    and stored: "find (\<lambda>row. acct_accountId row = acc \<and> acct_providerId row = ''twitch'') (accounts w) = Some a"
    and token: "acct_refreshToken a = Some r" "r \<noteq> []"
    and refreshed: "ok (token_api env t2 r)"
  shows "fetchFollowedStreams env acc tok w = fetchFollowedStreams env acc (access_token twitchData) w4
    \<and> find (\<lambda>row. acct_accountId row = acc \<and> acct_providerId row = ''twitch'') (accounts w4)
        = Some (a\<lparr>acct_accessToken := Some (access_token twitchData),
                  acct_refreshToken := Some (refresh_token twitchData),
                  acct_accessTokenExpiresAt := Some expiry\<rparr>)
    \<and> filter is_update (trace w4)
        = filter is_update (trace w)
            @ [Update (acct_id a) (access_token twitchData) (refresh_token twitchData) expiry]
    \<and> (\<forall>y. fetchFollowedStreams env acc tok w = Some y \<longrightarrow>
          (\<exists>rest. trace (snd y)
             = trace w4 @ Fetch (GetStreamsFollowed acc (access_token twitchData)) # rest))
    \<and> (status (followed_api env (trace w4) acc (access_token twitchData)) \<noteq> 401 \<longrightarrow>
          (\<exists>res wf rest. fetchFollowedStreams env acc tok w = Some (res, wf)
             \<and> trace wf = trace w4 @ Fetch (GetStreamsFollowed acc (access_token twitchData)) # rest
             \<and> accounts wf = accounts w4
             \<and> find (\<lambda>row. acct_accountId row = acc \<and> acct_providerId row = ''twitch'') (accounts wf)
                 = Some (a\<lparr>acct_accessToken := Some (access_token twitchData),
                           acct_refreshToken := Some (refresh_token twitchData),
                           acct_accessTokenExpiresAt := Some expiry\<rparr>)))"
proof -
  have round: "fetchFollowedStreams env acc tok w = fetchFollowedStreams env acc (access_token twitchData) w4"
    using fetchFollowedStreams_refresh_round [OF unauthorized stored token refreshed [unfolded t2_def]]
    by (simp add: w4_def expiry_def twitchData_def t2_def cong: if_cong)
  have row: "find (\<lambda>row. acct_accountId row = acc \<and> acct_providerId row = ''twitch'') (accounts w4)
        = Some (a\<lparr>acct_accessToken := Some (access_token twitchData),
                  acct_refreshToken := Some (refresh_token twitchData),
                  acct_accessTokenExpiresAt := Some expiry\<rparr>)"
    using find_updated_row [OF stored] by (simp add: w4_def)
  have once: "filter is_update (trace w4)
        = filter is_update (trace w)
            @ [Update (acct_id a) (access_token twitchData) (refresh_token twitchData) expiry]"
    by (simp add: w4_def t2_def)
  have order: "\<exists>rest. trace (snd y)
             = trace w4 @ Fetch (GetStreamsFollowed acc (access_token twitchData)) # rest"
    if "fetchFollowedStreams env acc tok w = Some y" for y
    using that fetchFollowedStreams_trace_prefix [of env acc "access_token twitchData" w4 y]
    by (simp add: round)
  have returns: "\<exists>res wf rest. fetchFollowedStreams env acc tok w = Some (res, wf)
             \<and> trace wf = trace w4 @ Fetch (GetStreamsFollowed acc (access_token twitchData)) # rest
             \<and> accounts wf = accounts w4
             \<and> find (\<lambda>row. acct_accountId row = acc \<and> acct_providerId row = ''twitch'') (accounts wf)
                 = Some (a\<lparr>acct_accessToken := Some (access_token twitchData),
                           acct_refreshToken := Some (refresh_token twitchData),
                           acct_accessTokenExpiresAt := Some expiry\<rparr>)"
    if "status (followed_api env (trace w4) acc (access_token twitchData)) \<noteq> 401"
  proof -
    from fetchFollowedStreams_no_401_world [OF that] obtain res wf rest
      where "fetchFollowedStreams env acc (access_token twitchData) w4 = Some (res, wf)"
        and "trace wf = trace w4 @ Fetch (GetStreamsFollowed acc (access_token twitchData)) # rest"
        and "accounts wf = accounts w4" by blast
    with round row show ?thesis by auto
  qed
  from round row once order returns show ?thesis by blast
qed

text \<open>The sample upstream answers 401 to \<open>access0\<close> and trades \<open>refresh0\<close> for \<open>access1\<close>/\<open>refresh1\<close>.\<close>

theorem refresh_persisted_before_retry_witness:
  "status (followed_api sample_env (trace sample_world) ''acc'' ''access0'') = 401
   \<and> find (\<lambda>row. acct_accountId row = ''acc'' \<and> acct_providerId row = ''twitch'') (accounts sample_world)
       = Some sample_account
   \<and> acct_refreshToken sample_account = Some ''refresh0''
   \<and> ''refresh0'' \<noteq> []
   \<and> ok (token_api sample_env
         (trace sample_world @ [Fetch (GetStreamsFollowed ''acc'' ''access0''), FindFirst ''acc'' ''twitch''])
         ''refresh0'')
   \<and> fetchFollowedStreams sample_env ''acc'' ''access0'' sample_world
       = fetchFollowedStreams sample_env ''acc'' ''access1''
           \<lparr>trace = [Fetch (GetStreamsFollowed ''acc'' ''access0''), FindFirst ''acc'' ''twitch'',
                     Fetch (PostRefreshToken ''refresh0''), Update ''row1'' ''access1'' ''refresh1'' 3601000],
            accounts = [\<lparr>acct_id = ''row1'', acct_accountId = ''acc'', acct_providerId = ''twitch'',
                         acct_accessToken = Some ''access1'', acct_refreshToken = Some ''refresh1'',
                         acct_accessTokenExpiresAt = Some 3601000\<rparr>]\<rparr>
   \<and> status (followed_api sample_env
         [Fetch (GetStreamsFollowed ''acc'' ''access0''), FindFirst ''acc'' ''twitch'',
          Fetch (PostRefreshToken ''refresh0''), Update ''row1'' ''access1'' ''refresh1'' 3601000]
         ''acc'' ''access1'') \<noteq> 401
   \<and> (\<exists>res wf rest. fetchFollowedStreams sample_env ''acc'' ''access0'' sample_world = Some (res, wf)
          \<and> trace wf = [Fetch (GetStreamsFollowed ''acc'' ''access0''), FindFirst ''acc'' ''twitch'',
                         Fetch (PostRefreshToken ''refresh0''), Update ''row1'' ''access1'' ''refresh1'' 3601000,
                         Fetch (GetStreamsFollowed ''acc'' ''access1'')] @ rest
          \<and> accounts wf = [\<lparr>acct_id = ''row1'', acct_accountId = ''acc'', acct_providerId = ''twitch'',
                         acct_accessToken = Some ''access1'', acct_refreshToken = Some ''refresh1'',
                         acct_accessTokenExpiresAt = Some 3601000\<rparr>])"
proof -
  note h = sample_round_hypotheses
  have u: "status (followed_api sample_env (trace sample_world) ''acc'' ''access0'') = 401"
    using h by blast
  have s: "find (\<lambda>row. acct_accountId row = ''acc'' \<and> acct_providerId row = ''twitch'') (accounts sample_world)
       = Some sample_account" using h by blast
  have t: "acct_refreshToken sample_account = Some ''refresh0''" using h by blast
  have n: "''refresh0'' \<noteq> []" by simp
  have k: "ok (token_api sample_env
         (trace sample_world @ [Fetch (GetStreamsFollowed ''acc'' ''access0''), FindFirst ''acc'' ''twitch''])
         ''refresh0'')" using h by blast
  have "fetchFollowedStreams sample_env ''acc'' ''access0'' sample_world
       = fetchFollowedStreams sample_env ''acc'' ''access1''
           \<lparr>trace = [Fetch (GetStreamsFollowed ''acc'' ''access0''), FindFirst ''acc'' ''twitch'',
                     Fetch (PostRefreshToken ''refresh0''), Update ''row1'' ''access1'' ''refresh1'' 3601000],
            accounts = [\<lparr>acct_id = ''row1'', acct_accountId = ''acc'', acct_providerId = ''twitch'',
                         acct_accessToken = Some ''access1'', acct_refreshToken = Some ''refresh1'',
                         acct_accessTokenExpiresAt = Some 3601000\<rparr>]\<rparr>"
    using refresh_persisted_before_retry [OF u s t n k, THEN conjunct1]
    by (simp add: sample_env_token0 sample_env_now sample_world_def sample_account_def
        sample_token_def reply_def)
  note eq = this
  have r: "status (followed_api sample_env tr ''acc'' ''access1'') \<noteq> 401" for tr
    by (simp add: sample_env_access1)
  have "\<exists>res wf rest. fetchFollowedStreams sample_env ''acc'' ''access0'' sample_world = Some (res, wf)
          \<and> trace wf = [Fetch (GetStreamsFollowed ''acc'' ''access0''), FindFirst ''acc'' ''twitch'',
                         Fetch (PostRefreshToken ''refresh0''), Update ''row1'' ''access1'' ''refresh1'' 3601000,
                         Fetch (GetStreamsFollowed ''acc'' ''access1'')] @ rest
          \<and> accounts wf = [\<lparr>acct_id = ''row1'', acct_accountId = ''acc'', acct_providerId = ''twitch'',
                         acct_accessToken = Some ''access1'', acct_refreshToken = Some ''refresh1'',
                         acct_accessTokenExpiresAt = Some 3601000\<rparr>]"
    using refresh_persisted_before_retry [OF u s t n k, THEN conjunct2, THEN conjunct2,
        THEN conjunct2, THEN conjunct2]
    by (auto simp: sample_env_token0 sample_env_now sample_env_access1 sample_world_def
        sample_account_def sample_token_def reply_def)
  with h eq r show ?thesis by blast
qed

text \<open>
  The claim C1 as the spec states it, that a second 401 on the retried call ends the
  call with an error and without a second refresh, fails: an upstream that answers 401
  to the first two access tokens gets two refreshes and three followed-streams
  requests, and the call succeeds.
\<close>

theorem second_401_refreshes_again:
  "status (followed_api strict_env [] ''acc'' ''access0'') = 401
   \<and> status (followed_api strict_env
        [Fetch (GetStreamsFollowed ''acc'' ''access0''), FindFirst ''acc'' ''twitch'',
         Fetch (PostRefreshToken ''refresh0''), Update ''row1'' ''access1'' ''refresh1'' 3601000]
        ''acc'' ''access1'') = 401
   \<and> fetchFollowedStreams strict_env ''acc'' ''access0'' sample_world
     = Some (Inr [],
         \<lparr>trace =
            [Fetch (GetStreamsFollowed ''acc'' ''access0''), FindFirst ''acc'' ''twitch'',
             Fetch (PostRefreshToken ''refresh0''), Update ''row1'' ''access1'' ''refresh1'' 3601000,
             Fetch (GetStreamsFollowed ''acc'' ''access1''), FindFirst ''acc'' ''twitch'',
             Fetch (PostRefreshToken ''refresh1''), Update ''row1'' ''access2'' ''refresh2'' 3601000,
             Fetch (GetStreamsFollowed ''acc'' ''access2'')],
          accounts =
            [\<lparr>acct_id = ''row1'', acct_accountId = ''acc'', acct_providerId = ''twitch'',
              acct_accessToken = Some ''access2'', acct_refreshToken = Some ''refresh2'',
              acct_accessTokenExpiresAt = Some 3601000\<rparr>]\<rparr>)"
  by (simp add: fetchFollowedStreams.simps strict_env_def sample_env_def sample_world_def
      sample_account_def sample_token_def reply_def ok_def account_findFirst_def
      refreshAccessToken_def account_update_def emit_def Promise_all_def)

text \<open>
  C1, amended. A call whose followed-streams fetch is answered 401 (with a stored refresh
  token and a successful refresh) continues as a new call of the same function with the
  new access token, one refresh and one followed-streams request later, whatever the
  retried request is answered. When the retried request is not answered 401, the call
  returns after exactly one refresh and exactly two followed-streams requests (the
  first and one retry). A 401 on the retried request is handled like the first one,
  by another refresh and retry.
\<close>

theorem one_refresh_per_401:
  fixes env :: env and acc tok r :: string and w :: world and a :: account
  defines "t2 \<equiv> trace w @ [Fetch (GetStreamsFollowed acc tok), FindFirst acc ''twitch'']"
  defines "twitchData \<equiv> json (token_api env t2 r)"
  defines "expiry \<equiv> date_now env (t2 @ [Fetch (PostRefreshToken r)]) + expires_in twitchData * 1000"
  defines "w4 \<equiv>
    \<lparr>trace = t2 @ [Fetch (PostRefreshToken r),
                    Update (acct_id a) (access_token twitchData) (refresh_token twitchData) expiry],
     accounts = map (\<lambda>row. if acct_id row = acct_id a
                            then row\<lparr>acct_accessToken := Some (access_token twitchData),
                                     acct_refreshToken := Some (refresh_token twitchData),
                                     acct_accessTokenExpiresAt := Some expiry\<rparr>
                            else row) (accounts w)\<rparr>"
  assumes unauthorized: "status (followed_api env (trace w) acc tok) = 401"
    and stored: "find (\<lambda>row. acct_accountId row = acc \<and> acct_providerId row = ''twitch'') (accounts w) = Some a"
    and token: "acct_refreshToken a = Some r" "r \<noteq> []"
    and refreshed: "ok (token_api env t2 r)"
  shows "fetchFollowedStreams env acc tok w = fetchFollowedStreams env acc (access_token twitchData) w4
    \<and> refreshes w4 = refreshes w + 1
    \<and> followed_fetches w4 = followed_fetches w + 1
    \<and> (status (followed_api env (trace w4) acc (access_token twitchData)) \<noteq> 401 \<longrightarrow>
         (\<exists>res wf. fetchFollowedStreams env acc tok w = Some (res, wf)
            \<and> refreshes wf = refreshes w + 1
            \<and> followed_fetches wf = followed_fetches w + 2))"
proof -
  have round: "fetchFollowedStreams env acc tok w = fetchFollowedStreams env acc (access_token twitchData) w4"
    using fetchFollowedStreams_refresh_round [OF unauthorized stored token refreshed [unfolded t2_def]]
    by (simp add: w4_def expiry_def twitchData_def t2_def cong: if_cong)
  have r: "refreshes w4 = refreshes w + 1"
    by (simp add: w4_def t2_def refreshes_def)
  have f: "followed_fetches w4 = followed_fetches w + 1"
    by (simp add: w4_def t2_def followed_fetches_def)
  have retry: "\<exists>res wf. fetchFollowedStreams env acc tok w = Some (res, wf)
            \<and> refreshes wf = refreshes w + 1
            \<and> followed_fetches wf = followed_fetches w + 2"
    if "status (followed_api env (trace w4) acc (access_token twitchData)) \<noteq> 401"
    using fetchFollowedStreams_no_401 [OF that] by (simp add: round r f)
  from round r f retry show ?thesis by blast
qed


text \<open>On the sample upstream the retried request, sent with \<open>access1\<close>, is answered 200.\<close>

theorem one_refresh_per_401_witness:
  "status (followed_api sample_env (trace sample_world) ''acc'' ''access0'') = 401
   \<and> find (\<lambda>row. acct_accountId row = ''acc'' \<and> acct_providerId row = ''twitch'') (accounts sample_world)
       = Some sample_account
   \<and> acct_refreshToken sample_account = Some ''refresh0''
   \<and> ''refresh0'' \<noteq> []
   \<and> ok (token_api sample_env
         (trace sample_world @ [Fetch (GetStreamsFollowed ''acc'' ''access0''), FindFirst ''acc'' ''twitch''])
         ''refresh0'')
   \<and> status (followed_api sample_env
         [Fetch (GetStreamsFollowed ''acc'' ''access0''), FindFirst ''acc'' ''twitch'',
          Fetch (PostRefreshToken ''refresh0''), Update ''row1'' ''access1'' ''refresh1'' 3601000]
         ''acc'' ''access1'') \<noteq> 401
   \<and> (\<exists>res wf. fetchFollowedStreams sample_env ''acc'' ''access0'' sample_world = Some (res, wf)
          \<and> refreshes wf = 1 \<and> followed_fetches wf = 2)"
proof -
  note h = sample_round_hypotheses
  have u: "status (followed_api sample_env (trace sample_world) ''acc'' ''access0'') = 401"
    using h by blast
  have s: "find (\<lambda>row. acct_accountId row = ''acc'' \<and> acct_providerId row = ''twitch'') (accounts sample_world)
       = Some sample_account" using h by blast
  have t: "acct_refreshToken sample_account = Some ''refresh0''" using h by blast
  have n: "''refresh0'' \<noteq> []" by simp
  have k: "ok (token_api sample_env
         (trace sample_world @ [Fetch (GetStreamsFollowed ''acc'' ''access0''), FindFirst ''acc'' ''twitch''])
         ''refresh0'')" using h by blast
  have r: "status (followed_api sample_env tr ''acc'' ''access1'') \<noteq> 401" for tr
    by (simp add: sample_env_access1)
  have z: "refreshes sample_world = 0 \<and> followed_fetches sample_world = 0"
    by (simp add: refreshes_def followed_fetches_def sample_world_def)
  have "\<exists>res wf. fetchFollowedStreams sample_env ''acc'' ''access0'' sample_world = Some (res, wf)
          \<and> refreshes wf = 1 \<and> followed_fetches wf = 2"
    using one_refresh_per_401 [OF u s t n k, THEN conjunct2, THEN conjunct2, THEN conjunct2] z
    by (simp add: sample_env_token0 sample_env_access1 sample_token_def reply_def numeral_2_eq_2)
  with h r show ?thesis by blast
qed

text \<open>
  Nothing bounds the rounds: when the upstream answers 401 every time and the token
  endpoint keeps answering the refresh with a non-empty refresh token, the call never
  returns.
\<close>

lemma fetchFollowedStreams_never_returns:
  assumes always: "\<And>tr a t. status (followed_api env tr a t) = 401"
    and fresh: "\<And>tr r. ok (token_api env tr r)" "\<And>tr r. refresh_token (json (token_api env tr r)) \<noteq> []"
    and stored: "find (\<lambda>row. acct_accountId row = acc \<and> acct_providerId row = ''twitch'') (accounts w) = Some a"
    and token: "acct_refreshToken a = Some r" "r \<noteq> []"
  shows "fetchFollowedStreams env acc tok w = None"
proof (rule ccontr)
  assume "fetchFollowedStreams env acc tok w \<noteq> None"
  then obtain y where y: "fetchFollowedStreams env acc tok w = Some y" by auto
  let ?linked = "\<lambda>acc' w'. \<exists>a r. find (\<lambda>row. acct_accountId row = acc' \<and> acct_providerId row = ''twitch'') (accounts w') = Some a
                   \<and> acct_refreshToken a = Some r \<and> r \<noteq> []"
  have "\<not> (env = env \<and> ?linked acc w)"
  proof (rule fetchFollowedStreams.raw_induct
      [where P = "\<lambda>env' acc' tok' w' y'. \<not> (env' = env \<and> ?linked acc' w')", OF _ y], goal_cases)
    case (1 f env' acc' tok' w' y')
    note IH = 1(1) and body = 1(2)
    show ?case
    proof
      assume inv: "env' = env \<and> ?linked acc' w'"
      then obtain a' r' where a': "find (\<lambda>row. acct_accountId row = acc' \<and> acct_providerId row = ''twitch'') (accounts w') = Some a'"
        and r': "acct_refreshToken a' = Some r'" "r' \<noteq> []" by blast
      from inv have e: "env' = env" by simp
      let ?t2 = "trace w' @ [Fetch (GetStreamsFollowed acc' tok'), FindFirst acc' ''twitch'']"
      let ?d = "json (token_api env ?t2 r')"
      let ?x = "date_now env (?t2 @ [Fetch (PostRefreshToken r')]) + expires_in ?d * 1000"
      let ?w4 = "\<lparr>trace = ?t2 @ [Fetch (PostRefreshToken r'),
                    Update (acct_id a') (access_token ?d) (refresh_token ?d) ?x],
         accounts = map (\<lambda>row. if acct_id row = acct_id a'
                            then row\<lparr>acct_accessToken := Some (access_token ?d),
                                     acct_refreshToken := Some (refresh_token ?d),
                                     acct_accessTokenExpiresAt := Some ?x\<rparr>
                            else row) (accounts w')\<rparr>"
      have n: "\<not> ok (followed_api env (trace w') acc' tok')" using always by (simp add: ok_def)
      have x: "list_ex (\<lambda>row. acct_id row = acct_id a') (accounts w')"
        using a' by (rule find_account_in_table)
      from body have "f env acc' (access_token ?d) ?w4 = Some y'"
        by (simp add: e Let_def n always a' r' fresh x account_findFirst_def refreshAccessToken_def
            account_update_def emit_def world_eq cong: if_cong)
      from IH [OF this] have "\<not> ?linked acc' ?w4" by simp
      moreover have "?linked acc' ?w4"
        using find_updated_row [OF a'] fresh(2) by simp
      ultimately show False by blast
    qed
  qed
  with stored token show False by blast
qed

lemma locked_env_never_returns:
  "fetchFollowedStreams locked_env ''acc'' ''access0'' sample_world = None"
proof (rule fetchFollowedStreams_never_returns)
  show "status (followed_api locked_env tr a t) = 401" for tr a t
    by (simp add: locked_env_def reply_def)
  show "ok (token_api locked_env tr r)" for tr r
    by (simp add: locked_env_def reply_def ok_def)
  show "refresh_token (json (token_api locked_env tr r)) \<noteq> []" for tr r
    by (simp add: locked_env_def reply_def sample_token_def)
  show "find (\<lambda>row. acct_accountId row = ''acc'' \<and> acct_providerId row = ''twitch'') (accounts sample_world)
       = Some sample_account"
    by (simp add: sample_world_def sample_account_def)
  show "acct_refreshToken sample_account = Some ''refresh0''"
    by (simp add: sample_account_def)
  show "''refresh0'' \<noteq> []" by simp
qed

section \<open>twitchTokenMiddleware: when a token request is sent\<close>

lemma cache_lookup_None_iff:
  "cache_lookup c currentTime = None \<longleftrightarrow>
     (cachedToken c = None \<or> tokenExpiryTime c = None \<or> tokenExpiryTime c = Some 0
      \<or> (\<exists>t. tokenExpiryTime c = Some t \<and> t - EXPIRY_BUFFER \<le> currentTime))"
  by (auto simp: cache_lookup_def split: option.splits)

lemma store_token_ok:
  "ok response \<Longrightarrow>
   store_token response now c =
     (Inr (json response),
      \<lparr>cachedToken = Some (json response),
       tokenExpiryTime = Some (now + min (app_expires_in (json response) * 1000) MAX_CACHE_DURATION - EXPIRY_BUFFER)\<rparr>)"
  by (simp add: store_token_def Let_def)

lemma twitchTokenMiddleware_sends_iff:
  "fst (snd (twitchTokenMiddleware c currentTime response now)) \<longleftrightarrow> cache_lookup c currentTime = None"
  by (simp add: twitchTokenMiddleware_def split: option.splits prod.splits)

lemma twitchTokenMiddleware_hit:
  "cache_lookup c currentTime = Some tok \<Longrightarrow>
   twitchTokenMiddleware c currentTime response now = (Inr tok, False, c) \<and> cachedToken c = Some tok"
  by (auto simp: twitchTokenMiddleware_def cache_lookup_def split: option.splits if_splits)

lemma refresh_within_two_buffers:
  assumes "ok response"
    and "now + min (app_expires_in (json response) * 1000) MAX_CACHE_DURATION \<noteq> EXPIRY_BUFFER"
  shows "fst (snd (twitchTokenMiddleware (snd (store_token response now c)) t response' now'))
         \<longleftrightarrow> now + min (app_expires_in (json response) * 1000) MAX_CACHE_DURATION - t \<le> 2 * EXPIRY_BUFFER"
  using assms
  by (auto simp: twitchTokenMiddleware_sends_iff cache_lookup_None_iff store_token_ok)

text \<open>
  C3 on the code. The first call, at time 0 with an empty cache, fetches a token that
  the upstream says lives 3600 seconds. The second call comes 3510 seconds later: the
  token has 90 seconds left, more than the buffer of 60 seconds, and still the
  middleware sends a token request. The buffer is subtracted when the expiry is stored
  (line 54) and again when it is compared (line 25), so a token is refreshed as soon
  as it has 120 seconds or less left (\<open>refresh_within_two_buffers\<close>).
\<close>

theorem buffer_subtracted_twice:
  "twitchTokenMiddleware empty_cache 0 (reply 200 sample_app_token) 0
     = (Inr sample_app_token, True,
        \<lparr>cachedToken = Some sample_app_token, tokenExpiryTime = Some 3540000\<rparr>)
   \<and> 0 + min (app_expires_in sample_app_token * 1000) MAX_CACHE_DURATION - 3510000 = 90000
   \<and> EXPIRY_BUFFER = 60000
   \<and> twitchTokenMiddleware
        \<lparr>cachedToken = Some sample_app_token, tokenExpiryTime = Some 3540000\<rparr>
        3510000 (reply 200 sample_app_token) 3510000
     = (Inr sample_app_token, True,
        \<lparr>cachedToken = Some sample_app_token, tokenExpiryTime = Some 7050000\<rparr>)"
  by (simp add: twitchTokenMiddleware_def cache_lookup_def store_token_def empty_cache_def
      reply_def ok_def sample_app_token_def MAX_CACHE_DURATION_def EXPIRY_BUFFER_def Let_def)

section \<open>twitchTokenMiddleware: overlapping calls\<close>

lemma run_Nil [simp]: "run [] s = s"
  by (simp add: run_def)

lemma run_Cons [simp]: "run (x # xs) s = run xs (step s x)"
  by (simp add: run_def)

lemma sequential_call:
  assumes "in_flight s = 0"
  shows "cache (run [Enter t, Resume response now] s) = snd (snd (twitchTokenMiddleware (cache s) t response now))
       \<and> in_flight (run [Enter t, Resume response now] s) = 0
       \<and> in_flight (run [Enter t] s) \<le> 1
       \<and> issued (run [Enter t, Resume response now] s)
           = issued s + (if fst (snd (twitchTokenMiddleware (cache s) t response now)) then 1 else 0)"
  using assms
  by (auto simp: twitchTokenMiddleware_def split: option.splits prod.splits)

lemma run_stale_callers:
  "list_all (\<lambda>t. cache_lookup (cache s) t = None) ts
   \<Longrightarrow> run (map Enter ts) s = s\<lparr>in_flight := in_flight s + length ts, issued := issued s + length ts\<rparr>"
proof (induction ts arbitrary: s)
  case Nil
  then show ?case by simp
next
  case (Cons t ts)
  let ?s = "s\<lparr>in_flight := in_flight s + 1, issued := issued s + 1\<rparr>"
  from Cons.prems have t: "cache_lookup (cache s) t = None"
    and ts: "list_all (\<lambda>t. cache_lookup (cache ?s) t = None) ts" by simp_all
  from Cons.IH [OF ts] t show ?case by simp
qed

text \<open>
  The claim C2 as the spec states it, at most one token request in flight, fails: two
  calls that enter while the cache is empty, the second before the first is answered,
  have two requests in flight.
\<close>

theorem two_callers_two_requests:
  "in_flight (run [Enter 0, Enter 1] idle_server) = 2
   \<and> issued (run [Enter 0, Enter 1] idle_server) = 2"
  by (simp add: idle_server_def empty_cache_def cache_lookup_def)

text \<open>
  C2, amended. Every call that enters while the cache is empty or expired sends its own
  token request: after the calls \<open>ts\<close>, entered one after the other with none answered
  in between, the requests in flight and the requests sent have both grown by the
  number of calls. Only when calls do not overlap (a call is answered before the next
  enters) is there at most one request in flight, and then the call leaves the cache as
  \<open>twitchTokenMiddleware\<close> computes it.
\<close>

theorem every_stale_caller_fetches:
  "(list_all (\<lambda>t. cache_lookup (cache s) t = None) ts
      \<longrightarrow> run (map Enter ts) s
            = s\<lparr>in_flight := in_flight s + length ts, issued := issued s + length ts\<rparr>)
   \<and> (in_flight s = 0
      \<longrightarrow> in_flight (run [Enter t] s) \<le> 1
          \<and> in_flight (run [Enter t, Resume response now] s) = 0
          \<and> cache (run [Enter t, Resume response now] s)
              = snd (snd (twitchTokenMiddleware (cache s) t response now)))"
  using run_stale_callers [of s ts] sequential_call [of s t response now]
  by blast

text \<open>Three calls enter the idle server before any answer; one call runs alone.\<close>

theorem every_stale_caller_fetches_witness:
  "list_all (\<lambda>t. cache_lookup (cache idle_server) t = None) [0, 1, 2]
   \<and> in_flight (run (map Enter [0, 1, 2]) idle_server) = 3
   \<and> issued (run (map Enter [0, 1, 2]) idle_server) = 3
   \<and> in_flight idle_server = 0
   \<and> in_flight (run [Enter 0] idle_server) \<le> 1
   \<and> in_flight (run [Enter 0, Resume (reply 200 sample_app_token) 0] idle_server) = 0"
proof -
  have a: "list_all (\<lambda>t. cache_lookup (cache idle_server) t = None) [0, 1, 2]"
    by (simp add: idle_server_def empty_cache_def cache_lookup_def)
  have b: "in_flight idle_server = 0" by (simp add: idle_server_def)
  from every_stale_caller_fetches [of idle_server "[0, 1, 2]" 0 "reply 200 sample_app_token" 0] a b
  have "run (map Enter [0, 1, 2]) idle_server
          = idle_server\<lparr>in_flight := in_flight idle_server + length [0::int, 1, 2],
                         issued := issued idle_server + length [0::int, 1, 2]\<rparr>"
    and c: "in_flight (run [Enter 0] idle_server) \<le> 1
          \<and> in_flight (run [Enter 0, Resume (reply 200 sample_app_token) 0] idle_server) = 0"
    by blast+
  then have "in_flight (run (map Enter [0, 1, 2]) idle_server) = 3
     \<and> issued (run (map Enter [0, 1, 2]) idle_server) = 3"
    by (simp add: idle_server_def)
  with a b c show ?thesis by blast
qed

end
